theory Spec2Isabelle
  imports Complex_Main "HOL-Library.Log_Nat" "HOL-Library.Sublist"
begin

section \<open>The Python run time the two scripts rely on\<close>

subsection \<open>Floats\<close>

text \<open>
  A Python float is an IEEE binary64 number. A finite float is modelled by the rational it
  denotes; every arithmetic result is rounded to 53 significant bits, ties to even, by
  \<open>fl64\<close>. The exponent range is not bounded: the quantities of the scripts are byte counts
  of files divided by powers of two, which neither overflow nor reach the subnormal range.
\<close>

definition round_half_even :: "rat \<Rightarrow> int" where
  "round_half_even x =
     (let f = \<lfloor>x\<rfloor>; r = x - of_int f
      in if r < 1 / 2 then f else if 1 / 2 < r then f + 1 else if even f then f else f + 1)"

text \<open>\<open>float_exponent x\<close> is the \<open>e\<close> with \<open>2^e \<le> |x| < 2^(e+1)\<close>, for \<open>x \<noteq> 0\<close>.\<close>

definition float_exponent :: "rat \<Rightarrow> int" where
  "float_exponent x =
     (let (p, q) = quotient_of \<bar>x\<bar>; d = bitlen p - bitlen q
      in if 2 powi d \<le> \<bar>x\<bar> then d else d - 1)"

definition fl64 :: "rat \<Rightarrow> rat" where
  "fl64 x =
     (if x = 0 then 0
      else let ulp = 2 powi (float_exponent x - 52)
           in of_int (round_half_even (x / ulp)) * ulp)"

text \<open>\<open>a / b\<close> and \<open>a + b\<close> on numbers, at least one of them a float or the division a true
  division of integers: the exact result, rounded once.\<close>

definition py_truediv :: "rat \<Rightarrow> rat \<Rightarrow> rat" where
  "py_truediv a b = fl64 (a / b)"

definition py_add :: "rat \<Rightarrow> rat \<Rightarrow> rat" where
  "py_add a b = fl64 (a + b)"

subsection \<open>Strings and format specifications\<close>

definition newline :: char where
  "newline = CHR 0x0A"

text \<open>The three non-ASCII characters the scripts print, as their UTF-8 bytes.\<close>

definition white_heavy_check_mark :: string where
  "white_heavy_check_mark = [CHR 0xE2, CHR 0x9C, CHR 0x85]"

definition check_mark :: string where
  "check_mark = [CHR 0xE2, CHR 0x9C, CHR 0x93]"

definition ballot_x :: string where
  "ballot_x = [CHR 0xE2, CHR 0x9C, CHR 0x97]"

fun str_nat :: "nat \<Rightarrow> string" where
  "str_nat n =
     (if n < 10 then [''0123456789'' ! n]
      else str_nat (n div 10) @ [''0123456789'' ! (n mod 10)])"

declare str_nat.simps [simp del]

text \<open>\<open>format_fixed d x\<close> is \<open>f"{x:.df}"\<close>: the decimal expansion of the float's exact value,
  rounded to \<open>d\<close> places, ties to even.\<close>

definition format_fixed :: "nat \<Rightarrow> rat \<Rightarrow> string" where
  "format_fixed d x =
     (let scaled = nat (round_half_even (\<bar>x\<bar> * 10 ^ d));
          frac = str_nat (scaled mod 10 ^ d)
      in (if x < 0 then ''-'' else '''') @ str_nat (scaled div 10 ^ d) @
         (if d = 0 then '''' else ''.'' @ replicate (d - length frac) (CHR ''0'') @ frac))"

text \<open>\<open>repr\<close> of a string without quotes, backslashes or control characters, as the
  messages of \<open>OSError\<close> show a path.\<close>

definition repr_str :: "string \<Rightarrow> string" where
  "repr_str s = [CHR 0x27] @ s @ [CHR 0x27]"

subsection \<open>Exceptions\<close>

text \<open>
  An exception is its class name and the text \<open>str(e)\<close> gives. The faults that the network and
  the file system raise (\<open>URLError\<close>, \<open>HTTPError\<close>, \<open>ContentTooShortError\<close>, \<open>OSError\<close> and its
  subclasses, \<open>ValueError\<close>) are instances of \<open>Exception\<close>. The built-in classes that are not
  are \<open>BaseException\<close> itself, \<open>KeyboardInterrupt\<close>, \<open>SystemExit\<close> and \<open>GeneratorExit\<close>: a clause
  \<open>except Exception\<close> does not catch them.
\<close>

datatype py_exception = PyException (exc_class: string) (exc_msg: string)

definition is_Exception :: "py_exception \<Rightarrow> bool" where
  "is_Exception e \<longleftrightarrow>
     exc_class e \<notin> {''BaseException'', ''KeyboardInterrupt'', ''SystemExit'', ''GeneratorExit''}"

subsection \<open>Paths (posixpath)\<close>

definition os_path_join :: "string \<Rightarrow> string \<Rightarrow> string" where
  "os_path_join a b =
     (if b \<noteq> [] \<and> hd b = CHR ''/'' then b
      else if a = [] \<or> last a = CHR ''/'' then a @ b
      else a @ ''/'' @ b)"

definition os_path_basename :: "string \<Rightarrow> string" where
  "os_path_basename p = rev (takeWhile (\<lambda>c. c \<noteq> CHR ''/'') (rev p))"

definition os_path_split :: "string \<Rightarrow> string \<times> string" where
  "os_path_split p =
     (let tail = os_path_basename p;
          head = take (length p - length tail) p
      in (if head \<noteq> [] \<and> \<not> list_all (\<lambda>c. c = CHR ''/'') head
          then rev (dropWhile (\<lambda>c. c = CHR ''/'') (rev head)) else head,
          tail))"

subsection \<open>The file system\<close>

text \<open>
  The file system maps a path to what \<open>stat\<close> finds there (symbolic links resolved): a regular
  file with its bytes, a directory with the names \<open>os.listdir\<close> reports, or a special file
  (device, socket, FIFO). Paths are the strings the scripts build; text is written as its
  bytes (POSIX, no newline translation).
\<close>

datatype node = File string | Dir "string list" | Special

type_synonym filesystem = "string \<Rightarrow> node option"

definition os_path_isfile :: "filesystem \<Rightarrow> string \<Rightarrow> bool" where
  "os_path_isfile fsys p = (case fsys p of Some (File c) \<Rightarrow> True | _ \<Rightarrow> False)"

text \<open>\<open>st_size\<close> of a directory or a special file depends on the platform; the scripts read
  the size of regular files only.\<close>

definition os_path_getsize :: "filesystem \<Rightarrow> string \<Rightarrow> py_exception + nat" where
  "os_path_getsize fsys p =
     (case fsys p of
        None \<Rightarrow> Inl (PyException ''FileNotFoundError'' (''[Errno 2] No such file or directory: '' @ repr_str p))
      | Some (File c) \<Rightarrow> Inr (length c)
      | Some (Dir names) \<Rightarrow> Inr 4096
      | Some Special \<Rightarrow> Inr 0)"

definition os_listdir :: "filesystem \<Rightarrow> string \<Rightarrow> py_exception + string list" where
  "os_listdir fsys d =
     (case fsys d of
        None \<Rightarrow> Inl (PyException ''FileNotFoundError'' (''[Errno 2] No such file or directory: '' @ repr_str d))
      | Some (Dir names) \<Rightarrow> Inr names
      | Some _ \<Rightarrow> Inl (PyException ''NotADirectoryError'' (''[Errno 20] Not a directory: '' @ repr_str d)))"

text \<open>\<open>os.makedirs(name, exist_ok=True)\<close>: nothing to do when the directory is there, an
  error when something else has the name, a new empty directory otherwise. Missing parent
  directories are created too; they are not recorded, as neither script looks at them.\<close>

definition os_makedirs :: "filesystem \<Rightarrow> string \<Rightarrow> py_exception + filesystem" where
  "os_makedirs fsys name =
     (case fsys name of
        None \<Rightarrow> Inr (fsys(name \<mapsto> Dir []))
      | Some (Dir names) \<Rightarrow> Inr fsys
      | Some _ \<Rightarrow> Inl (PyException ''FileExistsError'' (''[Errno 17] File exists: '' @ repr_str name)))"

text \<open>Creating or truncating the file \<open>name\<close> in the directory \<open>d\<close> and writing \<open>content\<close>
  to it; opening a special file for writing is taken to fail.\<close>

definition write_entry ::
  "filesystem \<Rightarrow> string \<Rightarrow> string \<Rightarrow> string \<Rightarrow> py_exception + filesystem" where
  "write_entry fsys d name content =
     (let p = os_path_join d name in
      case fsys d of
        None \<Rightarrow> Inl (PyException ''FileNotFoundError'' (''[Errno 2] No such file or directory: '' @ repr_str p))
      | Some (Dir names) \<Rightarrow>
          (case fsys p of
             None \<Rightarrow> Inr (fsys(d \<mapsto> Dir (if name \<in> set names then names else names @ [name]),
                               p \<mapsto> File content))
           | Some (File old) \<Rightarrow> Inr (fsys(p \<mapsto> File content))
           | Some (Dir sub) \<Rightarrow> Inl (PyException ''IsADirectoryError'' (''[Errno 21] Is a directory: '' @ repr_str p))
           | Some Special \<Rightarrow> Inl (PyException ''OSError'' (''[Errno 6] No such device or address: '' @ repr_str p)))
      | Some _ \<Rightarrow> Inl (PyException ''NotADirectoryError'' (''[Errno 20] Not a directory: '' @ repr_str p)))"

text \<open>\<open>open(path, 'w')\<close> followed by one \<open>write\<close> and the close.\<close>

definition open_write :: "filesystem \<Rightarrow> string \<Rightarrow> string \<Rightarrow> py_exception + filesystem" where
  "open_write fsys path content =
     (case os_path_split path of (d, name) \<Rightarrow> write_entry fsys d name content)"

subsection \<open>The world a script runs in\<close>

record world =
  fs :: filesystem
  stdout :: "string list"
  retrieved :: "(string \<times> string) list"

text \<open>\<open>print(s)\<close>: one more line on standard output. Standard output is taken to be open and
  to encode every character (UTF-8), so that \<open>print\<close> does not raise.\<close>

definition print :: "string \<Rightarrow> world \<Rightarrow> world" where
  "print s w = w\<lparr>stdout := stdout w @ [s]\<rparr>"

section \<open>download\_model.py\<close>

definition BASE_URL :: string where
  "BASE_URL = ''https://raw.githubusercontent.com/justadudewhohacks/face-api.js/master/weights''"

text \<open>The dictionary literal, in insertion order (the order \<open>items()\<close> iterates in).\<close>

definition MODELS :: "(string \<times> string list) list" where
  "MODELS =
     [(''tiny_face_detector'',
         [''tiny_face_detector_model-weights_manifest.json'',
          ''tiny_face_detector_model-shard1'']),
      (''face_landmark_68_tiny'',
         [''face_landmark_68_tiny_model-weights_manifest.json'',
          ''face_landmark_68_tiny_model-shard1'']),
      (''face_recognition'',
         [''face_recognition_model-weights_manifest.json'',
          ''face_recognition_model-shard1'',
          ''face_recognition_model-shard2''])]"

text \<open>Both scripts define \<open>OUTPUT_DIR\<close>, with the same value.\<close>

definition OUTPUT_DIR :: string where
  "OUTPUT_DIR = ''face_recognition_model''"

subsection \<open>The network\<close>

text \<open>
  What a request for a URL meets: the whole body, a connection that breaks after part of
  the body (\<open>urlretrieve\<close> has written that part and raises), or a fault before any byte
  arrives.
\<close>

datatype http_result =
    Complete string
  | Truncated string py_exception
  | Unreachable py_exception

type_synonym network = "string \<Rightarrow> http_result"

text \<open>\<open>urllib.request.urlretrieve(url, filename)\<close>. The exception raised, if any, comes with
  the world as the call leaves it.\<close>

definition urlretrieve :: "network \<Rightarrow> string \<Rightarrow> string \<Rightarrow> world \<Rightarrow> py_exception option \<times> world" where
  "urlretrieve net url filename w =
     (let w1 = w\<lparr>retrieved := retrieved w @ [(url, filename)]\<rparr> in
      case net url of
        Unreachable e \<Rightarrow> (Some e, w1)
      | Complete body \<Rightarrow>
          (case open_write (fs w1) filename body of
             Inl e \<Rightarrow> (Some e, w1)
           | Inr fsys \<Rightarrow> (None, w1\<lparr>fs := fsys\<rparr>))
      | Truncated part e \<Rightarrow>
          (case open_write (fs w1) filename part of
             Inl e' \<Rightarrow> (Some e', w1)
           | Inr fsys \<Rightarrow> (Some e, w1\<lparr>fs := fsys\<rparr>)))"


subsection \<open>download\_file\<close>

text \<open>The clause \<open>except Exception as e\<close>: the handler runs for an instance of \<open>Exception\<close>;
  any other exception leaves \<open>download_file\<close>.\<close>

definition download_failed :: "py_exception \<Rightarrow> world \<Rightarrow> py_exception + rat \<times> world" where
  "download_failed e w =
     (if is_Exception e
      then Inr (0, print (''    '' @ ballot_x @ '' Error: '' @ exc_msg e) w)
      else Inl e)"

definition download_file ::
  "network \<Rightarrow> string \<Rightarrow> string \<Rightarrow> world \<Rightarrow> py_exception + rat \<times> world" where
  "download_file net url output_path w =
     (let w1 = print (''  Downloading '' @ os_path_basename output_path @ ''...'') w in
      case urlretrieve net url output_path w1 of
        (Some e, w2) \<Rightarrow> download_failed e w2
      | (None, w2) \<Rightarrow>
          (case os_path_getsize (fs w2) output_path of
             Inl e \<Rightarrow> download_failed e w2
           | Inr n \<Rightarrow>
               (let size = py_truediv (of_nat n) 1024 in
                Inr (size,
                     print (''    '' @ check_mark @ '' Downloaded ('' @ format_fixed 1 size @ '' KB)'') w2))))"

subsection \<open>main\<close>

text \<open>The inner loop, over the files of one model; \<open>total_size\<close> and the world are threaded
  through. An exception that leaves \<open>download_file\<close> leaves the loop.\<close>

fun download_files ::
  "network \<Rightarrow> string list \<Rightarrow> rat \<times> world \<Rightarrow> py_exception + rat \<times> world" where
  "download_files net [] (total_size, w) = Inr (total_size, w)"
| "download_files net (filename # files) (total_size, w) =
     (let url = BASE_URL @ ''/'' @ filename;
          output_path = os_path_join OUTPUT_DIR filename
      in case download_file net url output_path w of
           Inl e \<Rightarrow> Inl e
         | Inr (size_kb, w') \<Rightarrow> download_files net files (py_add total_size size_kb, w'))"

text \<open>The outer loop, over the items of the dictionary.\<close>

fun download_models ::
  "network \<Rightarrow> (string \<times> string list) list \<Rightarrow> rat \<times> world \<Rightarrow> py_exception + rat \<times> world" where
  "download_models net [] (total_size, w) = Inr (total_size, w)"
| "download_models net ((model_name, files) # models) (total_size, w) =
     (case download_files net files
             (total_size, print (newline # ''Downloading '' @ model_name @ ''...'') w) of
        Inl e \<Rightarrow> Inl e
      | Inr (total_size', w') \<Rightarrow> download_models net models (total_size', w'))"

definition success_line_download :: string where
  "success_line_download = white_heavy_check_mark @ '' SUCCESS! Model is under 8 MB!''"

definition total_line :: "rat \<Rightarrow> string" where
  "total_line total_size =
     ''TOTAL MODEL SIZE: '' @ format_fixed 2 (py_truediv total_size 1024) @ '' MB''"

definition report_download :: "rat \<Rightarrow> world \<Rightarrow> world" where
  "report_download total_size w =
     (let w1 = print (newline # replicate 70 (CHR ''='')) w;
          w2 = print (total_line total_size) w1;
          w3 = print (replicate 70 (CHR ''='')) w2;
          w4 = (if py_truediv total_size 1024 \<le> 8 then print success_line_download w3 else w3);
          w5 = print (newline # check_mark @ '' Downloaded to: '' @ OUTPUT_DIR @ ''/'') w4
      in print [] w5)"

definition print_header :: "world \<Rightarrow> world" where
  "print_header w =
     (let w1 = print (replicate 70 (CHR ''='')) w;
          w2 = print ''FACE RECOGNITION MODEL DOWNLOADER'' w1;
          w3 = print ''Downloading pre-built TensorFlow.js models from face-api.js'' w2;
          w4 = print (replicate 70 (CHR ''='')) w3
      in print [] w4)"

text \<open>\<open>main\<close> has no handler: the exception of \<open>os.makedirs\<close> and an exception that the loops
  let through end the run.\<close>

definition main_download :: "network \<Rightarrow> world \<Rightarrow> py_exception + world" where
  "main_download net w =
     (let w5 = print_header w in
      case os_makedirs (fs w5) OUTPUT_DIR of
        Inl e \<Rightarrow> Inl e
      | Inr fsys \<Rightarrow>
          (case download_models net MODELS (0, w5\<lparr>fs := fsys\<rparr>) of
             Inl e \<Rightarrow> Inl e
           | Inr (total_size, w6) \<Rightarrow> Inr (report_download total_size w6)))"

text \<open>
  The sizes that the calls of \<open>download_file\<close> return, in the order of the calls: for the
  inner loop, for the outer loop and for a run of \<open>main\<close> whose loops come to their end. They
  follow the loops above and serve to state what \<open>total_size\<close> accumulates.
\<close>

fun returned_by_files ::
  "network \<Rightarrow> string list \<Rightarrow> world \<Rightarrow> py_exception + rat list \<times> world" where
  "returned_by_files net [] w = Inr ([], w)"
| "returned_by_files net (filename # files) w =
     (case download_file net (BASE_URL @ ''/'' @ filename) (os_path_join OUTPUT_DIR filename) w of
        Inl e \<Rightarrow> Inl e
      | Inr (size_kb, w') \<Rightarrow>
          (case returned_by_files net files w' of
             Inl e \<Rightarrow> Inl e
           | Inr (sizes, w'') \<Rightarrow> Inr (size_kb # sizes, w'')))"

fun returned_by_models ::
  "network \<Rightarrow> (string \<times> string list) list \<Rightarrow> world \<Rightarrow> py_exception + rat list \<times> world" where
  "returned_by_models net [] w = Inr ([], w)"
| "returned_by_models net ((model_name, files) # models) w =
     (case returned_by_files net files
             (print (newline # ''Downloading '' @ model_name @ ''...'') w) of
        Inl e \<Rightarrow> Inl e
      | Inr (sizes, w') \<Rightarrow>
          (case returned_by_models net models w' of
             Inl e \<Rightarrow> Inl e
           | Inr (sizes', w'') \<Rightarrow> Inr (sizes @ sizes', w'')))"

definition returned_sizes :: "network \<Rightarrow> world \<Rightarrow> rat list" where
  "returned_sizes net w =
     (case os_makedirs (fs (print_header w)) OUTPUT_DIR of
        Inl e \<Rightarrow> []
      | Inr fsys \<Rightarrow>
          (case returned_by_models net MODELS ((print_header w)\<lparr>fs := fsys\<rparr>) of
             Inl e \<Rightarrow> []
           | Inr (sizes, w') \<Rightarrow> sizes))"

section \<open>model\_conversion.py\<close>

definition INPUT_SIZE :: nat where
  "INPUT_SIZE = 112"

definition EMBEDDING_SIZE :: nat where
  "EMBEDDING_SIZE = 128"

subsection \<open>TensorFlow and the TensorFlow.js converter\<close>

text \<open>
  The two libraries are parameters of the model. \<open>build_network\<close> is the outcome of the
  Keras calls of \<open>create_model\<close> (loading the pretrained backbone can fail); \<open>'m\<close> is the type
  of Keras models. \<open>serialize\<close> gives the files, name and bytes, that the converter produces
  for a model under uint8 quantization, or the fault it raises.
\<close>

record 'm libraries =
  build_network :: "py_exception + 'm"
  serialize :: "'m \<Rightarrow> py_exception + (string \<times> string) list"

subsection \<open>create\_model\<close>

definition create_model :: "'m libraries \<Rightarrow> world \<Rightarrow> py_exception + ('m \<times> world)" where
  "create_model lib w =
     (let w1 = print (newline # ''Creating MobileFaceNet architecture...'') w in
      case build_network lib of
        Inl e \<Rightarrow> Inl e
      | Inr model \<Rightarrow> Inr (model, print (check_mark @ '' Model created'') w1))"

subsection \<open>convert\_to\_tfjs\<close>

text \<open>The converter writes its files into the directory, one after the other.\<close>

fun write_artifacts ::
  "filesystem \<Rightarrow> string \<Rightarrow> (string \<times> string) list \<Rightarrow> py_exception + filesystem" where
  "write_artifacts fsys d [] = Inr fsys"
| "write_artifacts fsys d ((name, content) # files) =
     (case write_entry fsys d name content of
        Inl e \<Rightarrow> Inl e
      | Inr fsys' \<Rightarrow> write_artifacts fsys' d files)"

definition save_keras_model ::
  "'m libraries \<Rightarrow> 'm \<Rightarrow> string \<Rightarrow> filesystem \<Rightarrow> py_exception + filesystem" where
  "save_keras_model lib model artifacts_dir fsys =
     (case serialize lib model of
        Inl e \<Rightarrow> Inl e
      | Inr files \<Rightarrow> write_artifacts fsys artifacts_dir files)"

text \<open>The generator expression under \<open>sum\<close>: the sizes of the listed names that are regular
  files, added up; an exception of \<open>getsize\<close> would end the sum.\<close>

fun sum_file_sizes :: "filesystem \<Rightarrow> string \<Rightarrow> string list \<Rightarrow> py_exception + nat" where
  "sum_file_sizes fsys d [] = Inr 0"
| "sum_file_sizes fsys d (f # names) =
     (if os_path_isfile fsys (os_path_join d f)
      then (case os_path_getsize fsys (os_path_join d f) of
              Inl e \<Rightarrow> Inl e
            | Inr n \<Rightarrow>
                (case sum_file_sizes fsys d names of
                   Inl e \<Rightarrow> Inl e
                 | Inr rest \<Rightarrow> Inr (n + rest)))
      else sum_file_sizes fsys d names)"

definition success_line_conversion :: string where
  "success_line_conversion = white_heavy_check_mark @ '' SUCCESS! Meets 1-2 MB requirement!''"

definition size_line :: "rat \<Rightarrow> string" where
  "size_line size_mb = ''MODEL SIZE: '' @ format_fixed 2 size_mb @ '' MB''"

definition report_conversion :: "rat \<Rightarrow> world \<Rightarrow> world" where
  "report_conversion size_mb w =
     (let w1 = print (newline # replicate 70 (CHR ''='')) w;
          w2 = print (size_line size_mb) w1;
          w3 = print (replicate 70 (CHR ''='')) w2
      in if size_mb \<le> 2 then print success_line_conversion w3 else w3)"

definition convert_to_tfjs ::
  "'m libraries \<Rightarrow> 'm \<Rightarrow> string \<Rightarrow> world \<Rightarrow> py_exception + (rat \<times> world)" where
  "convert_to_tfjs lib model output_dir w =
     (let w1 = print (newline # ''Converting to TensorFlow.js with quantization...'') w in
      case os_makedirs (fs w1) output_dir of
        Inl e \<Rightarrow> Inl e
      | Inr fs1 \<Rightarrow>
          (case save_keras_model lib model output_dir fs1 of
             Inl e \<Rightarrow> Inl e
           | Inr fs2 \<Rightarrow>
               (case os_listdir fs2 output_dir of
                  Inl e \<Rightarrow> Inl e
                | Inr names \<Rightarrow>
                    (case sum_file_sizes fs2 output_dir names of
                       Inl e \<Rightarrow> Inl e
                     | Inr total_size \<Rightarrow>
                         (let size_mb = py_truediv (of_nat total_size) (1024 * 1024)
                          in Inr (size_mb, report_conversion size_mb (w1\<lparr>fs := fs2\<rparr>)))))))"

subsection \<open>create\_readme\<close>

definition readme_lines :: "rat \<Rightarrow> string list" where
  "readme_lines size_mb =
     [
      ''# Face Recognition Model (TensorFlow.js)'',
      [],
      ''**Size**: '' @ format_fixed 2 size_mb @ '' MB | **Input**: 112x112 | **Output**: 128-D embedding'',
      [],
      ''## Usage in JavaScript:'',
      [],
      ''```javascript'',
      ''import * as tf from '@tensorflow/tfjs';'',
      [],
      ''// Load model'',
      ''const model = await tf.loadGraphModel('./model.json');'',
      [],
      ''// Preprocess image'',
      ''const input = tf.browser.fromPixels(image)'',
      ''  .resizeBilinear([112, 112])'',
      ''  .toFloat()'',
      ''  .sub(127.5)'',
      ''  .div(128.0)'',
      ''  .expandDims(0);'',
      [],
      ''// Get embedding'',
      ''const embedding = model.predict(input);'',
      ''const norm = embedding.norm(2, 1, true);'',
      ''const normalized = embedding.div(norm);'',
      [],
      ''// Compare faces (cosine similarity)'',
      ''const similarity = embedding1.dot(embedding2).dataSync()[0];'',
      ''const isSame = similarity > 0.6;  // Threshold'',
      ''```'',
      [],
      ''## Model ready for browser deployment!''
     ]"

text \<open>The f-string: every line of the template, each ended by a newline.\<close>

definition readme_content :: "rat \<Rightarrow> string" where
  "readme_content size_mb = concat (map (\<lambda>l. l @ [newline]) (readme_lines size_mb))"

definition create_readme :: "string \<Rightarrow> rat \<Rightarrow> world \<Rightarrow> py_exception + world" where
  "create_readme output_dir size_mb w =
     (case open_write (fs w) (os_path_join output_dir ''README.md'') (readme_content size_mb) of
        Inl e \<Rightarrow> Inl e
      | Inr fsys \<Rightarrow> Inr (print (check_mark @ '' README saved'') (w\<lparr>fs := fsys\<rparr>)))"

subsection \<open>main\<close>

text \<open>The loop that prints the directory listing.\<close>

fun print_files :: "string list \<Rightarrow> world \<Rightarrow> world" where
  "print_files [] w = w"
| "print_files (f # names) w = print_files names (print (''  - '' @ f) w)"

definition main_conversion :: "'m libraries \<Rightarrow> world \<Rightarrow> py_exception + world" where
  "main_conversion lib w =
     (let w1 = print (newline # ''1. Creating model architecture...'') w in
      case create_model lib w1 of
        Inl e \<Rightarrow> Inl e
      | Inr (model, w2) \<Rightarrow>
          (let w3 = print (newline # ''2. Converting to TensorFlow.js...'') w2 in
           case convert_to_tfjs lib model OUTPUT_DIR w3 of
             Inl e \<Rightarrow> Inl e
           | Inr (size_mb, w4) \<Rightarrow>
               (let w5 = print (newline # ''3. Creating documentation...'') w4 in
                case create_readme OUTPUT_DIR size_mb w5 of
                  Inl e \<Rightarrow> Inl e
                | Inr w6 \<Rightarrow>
                    (let w7 = print (newline # white_heavy_check_mark @ '' DONE! Model saved to: ''
                                       @ OUTPUT_DIR @ ''/'' @ [newline]) w6;
                         w8 = print ''Files:'' w7
                     in case os_listdir (fs w8) OUTPUT_DIR of
                          Inl e \<Rightarrow> Inl e
                        | Inr names \<Rightarrow> Inr (print [] (print_files names w8))))))"


section \<open>Notions used to state the properties\<close>

text \<open>A size that \<open>download_file\<close> can return: a byte count in KB, as a float.\<close>

definition kb_sizes :: "rat set" where
  "kb_sizes = {x. \<exists>n::nat. x = fl64 (of_nat n / 1024)}"

text \<open>Concrete situations, on which the theorems below are instantiated: a working directory
  with nothing in it, a network that is down, and a server whose every file has 1024 bytes.\<close>

definition fresh_world :: world where
  "fresh_world = \<lparr>fs = Map.empty, stdout = [], retrieved = []\<rparr>"

definition offline :: network where
  "offline = (\<lambda>url. Unreachable (PyException ''URLError'' ''<urlopen error timed out>''))"

definition one_kb_files :: network where
  "one_kb_files = (\<lambda>url. Complete (replicate 1024 (CHR ''x'')))"

text \<open>A request that no exception outside \<open>Exception\<close> cuts short, and a network on which
  this holds for the files of the manifest.\<close>

fun uninterrupted :: "http_result \<Rightarrow> bool" where
  "uninterrupted (Complete body) = True"
| "uninterrupted (Truncated part e) = is_Exception e"
| "uninterrupted (Unreachable e) = is_Exception e"

definition never_interrupted :: "network \<Rightarrow> bool" where
  "never_interrupted net \<longleftrightarrow>
     list_all (\<lambda>filename. uninterrupted (net (BASE_URL @ ''/'' @ filename)))
       (concat (map snd MODELS))"

text \<open>Two more situations: the user interrupts the first request, and a regular file has
  the name of the output directory.\<close>

definition interrupted :: network where
  "interrupted = (\<lambda>url. Unreachable (PyException ''KeyboardInterrupt'' []))"

definition occupied_world :: world where
  "occupied_world = \<lparr>fs = [OUTPUT_DIR \<mapsto> File []], stdout = [], retrieved = []\<rparr>"

text \<open>The calls of \<open>urlretrieve\<close> that the loops make for a list of file names.\<close>

definition planned :: "string list \<Rightarrow> (string \<times> string) list" where
  "planned files =
     map (\<lambda>filename. (BASE_URL @ ''/'' @ filename, os_path_join OUTPUT_DIR filename)) files"

text \<open>How the running total \<open>t\<close> of the floats relates to the exact sum \<open>s\<close> of the same sizes:
  below \<open>2^53\<close> bytes no addition rounds and the two agree; once rounding can occur, both are
  at least \<open>2^43\<close> KB.\<close>

definition exact_or_huge :: "rat \<Rightarrow> rat \<Rightarrow> bool" where
  "exact_or_huge t s \<longleftrightarrow>
     (\<exists>m::nat. m < 2 ^ 53 \<and> t = of_nat m / 2 ^ 10 \<and> s = t) \<or> (2 ^ 43 \<le> t \<and> 2 ^ 43 \<le> s)"


subsection \<open>Notions for the export pipeline\<close>

text \<open>The sum of the byte sizes of every regular file directly inside the directory \<open>d\<close>:
  the names listed in \<open>d\<close> (each name once, as a directory lists it) that are regular files
  count with their length, its subdirectories and special files count for nothing.\<close>

definition regular_file_bytes :: "filesystem \<Rightarrow> string \<Rightarrow> nat" where
  "regular_file_bytes fsys d =
     (case fsys d of
        Some (Dir names) \<Rightarrow>
          (\<Sum>name\<leftarrow>names. case fsys (os_path_join d name) of
                             Some (File content) \<Rightarrow> length content
                           | _ \<Rightarrow> 0)
      | _ \<Rightarrow> 0)"


text \<open>The path of the README that \<open>main\<close> has written.\<close>

definition README_path :: string where
  "README_path = os_path_join OUTPUT_DIR ''README.md''"

text \<open>Whether \<open>open(path, 'w')\<close> succeeds does not depend on what is to be written.\<close>

definition writable :: "filesystem \<Rightarrow> string \<Rightarrow> bool" where
  "writable fsys path = (case open_write fsys path [] of Inl e \<Rightarrow> False | Inr fsys' \<Rightarrow> True)"

text \<open>
  Concrete converters, with the one-element type of models: the export is \<open>model.json\<close> and
  one shard of weights, of 2 MiB together for the first and of 3 MiB for the second.
\<close>

definition two_mb_export :: "unit libraries" where
  "two_mb_export =
     \<lparr>build_network = Inr (),
      serialize = (\<lambda>model. Inr [(''model.json'', replicate 1024 (CHR ''j'')),
                                (''group1-shard1of1.bin'', replicate 2096128 (CHR ''b''))])\<rparr>"


text \<open>Working directories: one whose output directory holds a subdirectory with a file in
  it and a FIFO, one in which \<open>README.md\<close> is a directory, and one in which an earlier run
  has left a \<open>README.md\<close> of 743 bytes.\<close>

definition cluttered_world :: world where
  "cluttered_world =
     \<lparr>fs = [OUTPUT_DIR \<mapsto> Dir [''old'', ''pipe''],
            os_path_join OUTPUT_DIR ''old'' \<mapsto> Dir [''weights.bin''],
            os_path_join (os_path_join OUTPUT_DIR ''old'') ''weights.bin''
              \<mapsto> File (replicate 5000 (CHR ''w'')),
            os_path_join OUTPUT_DIR ''pipe'' \<mapsto> Special],
      stdout = [], retrieved = []\<rparr>"


definition rerun_world :: world where
  "rerun_world =
     \<lparr>fs = [OUTPUT_DIR \<mapsto> Dir [''README.md''], README_path \<mapsto> File (replicate 743 (CHR ''r''))],
      stdout = [], retrieved = []\<rparr>"

text \<open>The lines that \<open>main\<close> prints when every step succeeds.\<close>

definition conversion_lines :: "rat \<Rightarrow> string list \<Rightarrow> string list" where
  "conversion_lines size_mb names =
     [newline # ''1. Creating model architecture...'',
      newline # ''Creating MobileFaceNet architecture...'',
      check_mark @ '' Model created'',
      newline # ''2. Converting to TensorFlow.js...'',
      newline # ''Converting to TensorFlow.js with quantization...'',
      newline # replicate 70 (CHR ''=''), size_line size_mb, replicate 70 (CHR ''='')] @
     (if size_mb \<le> 2 then [success_line_conversion] else []) @
     [newline # ''3. Creating documentation...'',
      check_mark @ '' README saved'',
      newline # white_heavy_check_mark @ '' DONE! Model saved to: '' @ OUTPUT_DIR @ ''/'' @ [newline],
      ''Files:''] @
     map (\<lambda>f. ''  - '' @ f) names @ [[]]"

section \<open>Properties of the run time\<close>

subsection \<open>Rounding\<close>

lemma bitlen_powi_bounds:
  assumes "0 < p"
  shows "2 powi (bitlen p - 1) \<le> (of_int p :: rat)" and "(of_int p :: rat) < 2 powi bitlen p"
proof -
  from assms have b1: "1 \<le> bitlen p" by (auto simp: bitlen_alt_def)
  from bitlen_bounds [OF assms] have lo: "2 ^ nat (bitlen p - 1) \<le> p" and hi: "p < 2 ^ nat (bitlen p)"
    by auto
  from lo have "(of_int (2 ^ nat (bitlen p - 1)) :: rat) \<le> of_int p"
    by (simp only: of_int_le_iff)
  with b1 show "2 powi (bitlen p - 1) \<le> (of_int p :: rat)"
    by (simp add: power_int_def)
  from hi have "(of_int p :: rat) < of_int (2 ^ nat (bitlen p))"
    by (simp only: of_int_less_iff)
  with b1 show "(of_int p :: rat) < 2 powi bitlen p"
    by (simp add: power_int_def)
qed

lemma power2_int_mult: "(2::rat) powi a * 2 powi b = 2 powi (a + b)"
  by (simp add: power_int_add)

lemma power2_int_divide: "(2::rat) powi a / 2 powi b = 2 powi (a - b)"
  by (simp add: power_int_diff)

lemma power2_int_lessD:
  assumes "(2::rat) powi a < 2 powi b"
  shows "a < b"
proof (rule ccontr)
  assume "\<not> a < b"
  then have "b \<le> a" by simp
  then have "(2::rat) powi b \<le> 2 powi a" by (rule power_int_increasing) simp
  with assms show False by simp
qed

lemma float_exponent_bounds:
  assumes "x \<noteq> 0"
  shows "2 powi float_exponent x \<le> \<bar>x\<bar>" and "\<bar>x\<bar> < 2 powi (float_exponent x + 1)"
proof -
  obtain p q where pq: "quotient_of \<bar>x\<bar> = (p, q)" by (cases "quotient_of \<bar>x\<bar>")
  then have q: "0 < q" and x: "\<bar>x\<bar> = of_int p / of_int q"
    by (auto dest: quotient_of_denom_pos quotient_of_div)
  from assms have "0 < \<bar>x\<bar>" by simp
  with x q have p: "0 < p" by (simp add: zero_less_divide_iff)
  let ?d = "bitlen p - bitlen q"
  note P = bitlen_powi_bounds [OF p] and Q = bitlen_powi_bounds [OF q]
  have qpos: "(0::rat) < of_int q" using q by simp
  have up: "\<bar>x\<bar> < 2 powi (?d + 1)"
  proof -
    have "of_int p < (2::rat) powi bitlen p" by (rule P)
    also have "\<dots> = 2 powi (?d + 1) * 2 powi (bitlen q - 1)"
      by (simp add: power2_int_mult)
    also have "\<dots> \<le> 2 powi (?d + 1) * of_int q"
      by (rule mult_left_mono [OF Q(1)]) simp
    finally show ?thesis using qpos by (simp add: x pos_divide_less_eq)
  qed
  have lo: "2 powi (?d - 1) \<le> \<bar>x\<bar>"
  proof -
    have "2 powi (?d - 1) * of_int q \<le> (2::rat) powi (?d - 1) * 2 powi bitlen q"
      by (rule mult_left_mono [OF less_imp_le [OF Q(2)]]) simp
    also have "\<dots> = 2 powi (bitlen p - 1)"
      by (simp add: power2_int_mult)
    also have "\<dots> \<le> of_int p" by (rule P)
    finally show ?thesis using qpos by (simp add: x pos_le_divide_eq)
  qed
  show "2 powi float_exponent x \<le> \<bar>x\<bar>"
    using lo by (simp add: float_exponent_def pq Let_def)
  show "\<bar>x\<bar> < 2 powi (float_exponent x + 1)"
    using up by (auto simp add: float_exponent_def pq Let_def not_le)
qed

lemma round_half_even_of_int [simp]: "round_half_even (of_int n) = n"
  by (simp add: round_half_even_def)

lemma round_half_even_ge:
  assumes "of_int n \<le> x"
  shows "n \<le> round_half_even x"
proof -
  from assms have "n \<le> \<lfloor>x\<rfloor>" by (simp add: le_floor_iff)
  then show ?thesis by (simp add: round_half_even_def Let_def)
qed

text \<open>Rounding never goes below a power of two that the exact value has reached.\<close>

lemma fl64_ge_power2:
  assumes "2 powi k \<le> x"
  shows "2 powi k \<le> fl64 x"
proof -
  have pos: "0 < x" by (rule less_le_trans [OF _ assms]) simp
  then have nz: "x \<noteq> 0" by simp
  let ?e = "float_exponent x"
  let ?ulp = "(2::rat) powi (?e - 52)"
  from float_exponent_bounds [OF nz] pos
  have lo: "2 powi ?e \<le> x" and hi: "x < 2 powi (?e + 1)" by simp_all
  from assms hi have "(2::rat) powi k < 2 powi (?e + 1)" by (rule le_less_trans)
  then have "k < ?e + 1" by (rule power2_int_lessD)
  then have ke: "k \<le> ?e" by simp
  have ulp: "0 < ?ulp" by simp
  have "(2::rat) powi 52 = 2 powi ?e / ?ulp" using power2_int_divide [of ?e "?e - 52"] by simp
  also have "\<dots> \<le> x / ?ulp" using lo ulp by (simp add: divide_right_mono)
  finally have "of_int (2 ^ 52) \<le> x / ?ulp" by simp
  then have "2 ^ 52 \<le> round_half_even (x / ?ulp)" by (rule round_half_even_ge)
  then have "(of_int (2 ^ 52) :: rat) \<le> of_int (round_half_even (x / ?ulp))"
    by (simp only: of_int_le_iff)
  then have r: "of_int (2 ^ 52) * ?ulp \<le> of_int (round_half_even (x / ?ulp)) * ?ulp"
    using ulp by (simp only: mult_le_cancel_right_pos)
  have eq: "of_int (2 ^ 52) * ?ulp = 2 powi ?e"
    using power2_int_mult [of 52 "?e - 52"] by simp
  have "(2::rat) powi k \<le> 2 powi ?e" using ke by (simp add: power_int_increasing)
  also from r eq have "2 powi ?e \<le> of_int (round_half_even (x / ?ulp)) * ?ulp"
    by (simp only:)
  also have "\<dots> = fl64 x" using nz by (simp add: fl64_def Let_def)
  finally show ?thesis .
qed

text \<open>A number with a significand of at most 53 bits is a float: rounding leaves it.\<close>

lemma fl64_exact:
  assumes "\<bar>m\<bar> < 2 ^ 53"
  shows "fl64 (of_int m * 2 powi k) = of_int m * 2 powi k"
proof (cases "m = 0")
  case True
  then show ?thesis by (simp add: fl64_def)
next
  case False
  let ?x = "of_int m * (2::rat) powi k"
  let ?e = "float_exponent ?x"
  let ?ulp = "(2::rat) powi (?e - 52)"
  from False have nz: "?x \<noteq> 0" by simp
  have "2 powi ?e \<le> \<bar>?x\<bar>" by (rule float_exponent_bounds [OF nz])
  also have "\<bar>?x\<bar> = of_int \<bar>m\<bar> * 2 powi k" by (simp add: abs_mult)
  also have "\<dots> < of_int (2 ^ 53) * 2 powi k"
    using assms by (simp only: mult_less_cancel_right_pos zero_less_power_int zero_less_numeral of_int_less_iff)
  also have "\<dots> = 2 powi (53 + k)" by (simp add: power_int_add)
  finally have "?e < 53 + k" by (rule power2_int_lessD)
  then have j: "0 \<le> k - ?e + 52" by simp
  have "?x / ?ulp = of_int m * (2 powi k / ?ulp)" by simp
  also have "2 powi k / ?ulp = (2::rat) powi (k - ?e + 52)"
    using power2_int_divide [of k "?e - 52"] by (simp add: algebra_simps)
  also have "\<dots> = 2 ^ nat (k - ?e + 52)" using j by (simp add: power_int_def)
  finally have "?x / ?ulp = of_int (m * 2 ^ nat (k - ?e + 52))" by simp
  then have "of_int (round_half_even (?x / ?ulp)) * ?ulp = ?x / ?ulp * ?ulp"
    by (simp only: round_half_even_of_int)
  also have "\<dots> = ?x" by simp
  finally show ?thesis using nz by (simp add: fl64_def Let_def)
qed

text \<open>Byte counts in KB and MB: exact below \<open>2^53\<close> bytes, at least \<open>2^53\<close> bytes' worth above.\<close>

lemma fl64_bytes_exact:
  assumes "n < 2 ^ 53"
  shows "fl64 (of_nat n / 2 ^ k) = of_nat n / 2 ^ k"
proof -
  from assms have "\<bar>int n\<bar> < 2 ^ 53" by simp
  from fl64_exact [OF this, of "- int k"] show ?thesis
    by (simp add: power_int_minus field_simps)
qed

lemma fl64_bytes_large:
  assumes "2 ^ 53 \<le> n" and "k \<le> 53"
  shows "2 ^ (53 - k) \<le> fl64 (of_nat n / 2 ^ k)"
proof -
  from assms(1) have "(2::rat) ^ 53 \<le> of_nat n"
    by (metis of_nat_le_iff of_nat_numeral of_nat_power)
  moreover have "(2::rat) ^ 53 = 2 ^ (53 - k) * 2 ^ k"
    using assms(2) by (simp flip: power_add)
  ultimately have "2 ^ (53 - k) \<le> (of_nat n :: rat) / 2 ^ k"
    by (simp add: pos_le_divide_eq)
  then have "2 powi int (53 - k) \<le> (of_nat n :: rat) / 2 ^ k" by simp
  then have "2 powi int (53 - k) \<le> fl64 (of_nat n / 2 ^ k)" by (rule fl64_ge_power2)
  then show ?thesis by simp
qed

subsection \<open>Printing\<close>

lemma stdout_print [simp]: "stdout (print s w) = stdout w @ [s]"
  and fs_print [simp]: "fs (print s w) = fs w"
  and retrieved_print [simp]: "retrieved (print s w) = retrieved w"
  by (simp_all add: print_def)


subsection \<open>The running total\<close>

lemma kb_sizes_cases:
  assumes "v \<in> kb_sizes"
  shows "(\<exists>m::nat. m < 2 ^ 53 \<and> v = of_nat m / 2 ^ 10) \<or> 2 ^ 43 \<le> v"
proof -
  from assms obtain n :: nat where v: "v = fl64 (of_nat n / 2 ^ 10)"
    by (auto simp add: kb_sizes_def)
  show ?thesis
  proof (cases "n < 2 ^ 53")
    case True
    then have "v = of_nat n / 2 ^ 10" unfolding v by (rule fl64_bytes_exact)
    with True show ?thesis by blast
  next
    case False
    then have "2 ^ 53 \<le> n" by simp
    from fl64_bytes_large [OF this, of 10] show ?thesis by (simp add: v)
  qed
qed

lemma kb_sizes_nonneg:
  assumes "v \<in> kb_sizes"
  shows "0 \<le> v"
  using kb_sizes_cases [OF assms]
proof
  assume "\<exists>m::nat. m < 2 ^ 53 \<and> v = of_nat m / 2 ^ 10"
  then show ?thesis by auto
next
  assume "2 ^ 43 \<le> v"
  then show ?thesis by simp
qed

lemma fl64_ge_2_43:
  assumes "2 ^ 43 \<le> x"
  shows "2 ^ 43 \<le> fl64 x"
proof -
  from assms have "2 powi 43 \<le> x" by simp
  then have "2 powi 43 \<le> fl64 x" by (rule fl64_ge_power2)
  then show ?thesis by simp
qed

lemma exact_or_huge_step:
  assumes "exact_or_huge t s" and "v \<in> kb_sizes"
  shows "exact_or_huge (py_add t v) (s + v)"
proof -
  note v0 = kb_sizes_nonneg [OF assms(2)]
  from assms(1) consider
      (exact) m :: nat where "m < 2 ^ 53" "t = of_nat m / 2 ^ 10" "s = t"
    | (huge) "2 ^ 43 \<le> t" "2 ^ 43 \<le> s"
    by (auto simp add: exact_or_huge_def)
  then show ?thesis
  proof cases
    case exact
    from kb_sizes_cases [OF assms(2)] show ?thesis
    proof
      assume "\<exists>m'::nat. m' < 2 ^ 53 \<and> v = of_nat m' / 2 ^ 10"
      then obtain m' :: nat where m': "m' < 2 ^ 53" "v = of_nat m' / 2 ^ 10" by blast
      have sum: "t + v = of_nat (m + m') / 2 ^ 10"
        by (simp add: exact(2) m'(2) add_divide_distrib)
      show ?thesis
      proof (cases "m + m' < 2 ^ 53")
        case True
        then have "py_add t v = of_nat (m + m') / 2 ^ 10"
          unfolding py_add_def sum by (rule fl64_bytes_exact)
        with True sum exact(3) show ?thesis
          unfolding exact_or_huge_def by (intro disjI1 exI [of _ "m + m'"]) simp
      next
        case False
        then have big: "2 ^ 53 \<le> m + m'" by simp
        from fl64_bytes_large [OF big, of 10] have "2 ^ 43 \<le> py_add t v"
          by (simp add: py_add_def sum)
        moreover have "(2::rat) ^ 43 \<le> s + v"
        proof -
          from big have "(2::rat) ^ 53 \<le> of_nat (m + m')"
            by (metis of_nat_le_iff of_nat_numeral of_nat_power)
          then have "(2::rat) ^ 43 \<le> of_nat (m + m') / 2 ^ 10" by (simp add: pos_le_divide_eq)
          then show ?thesis using sum exact(3) by simp
        qed
        ultimately show ?thesis by (simp add: exact_or_huge_def)
      qed
    next
      assume vh: "2 ^ 43 \<le> v"
      have t0: "0 \<le> t" by (simp add: exact(2))
      from vh t0 have "2 ^ 43 \<le> t + v" by simp
      then have "2 ^ 43 \<le> py_add t v" unfolding py_add_def by (rule fl64_ge_2_43)
      moreover from vh t0 exact(3) have "2 ^ 43 \<le> s + v" by simp
      ultimately show ?thesis by (simp add: exact_or_huge_def)
    qed
  next
    case huge
    from huge(1) v0 have "2 ^ 43 \<le> t + v" by simp
    then have "2 ^ 43 \<le> py_add t v" unfolding py_add_def by (rule fl64_ge_2_43)
    moreover from huge(2) v0 have "2 ^ 43 \<le> s + v" by simp
    ultimately show ?thesis by (simp add: exact_or_huge_def)
  qed
qed

lemma exact_or_huge_foldl:
  assumes "exact_or_huge t s" and "set vs \<subseteq> kb_sizes"
  shows "exact_or_huge (foldl py_add t vs) (s + sum_list vs)"
  using assms
proof (induction vs arbitrary: t s)
  case Nil
  then show ?case by simp
next
  case (Cons v vs)
  from Cons.prems have "exact_or_huge (py_add t v) (s + v)"
    by (intro exact_or_huge_step) simp_all
  from Cons.IH [OF this] Cons.prems(2) show ?case by (simp add: add.assoc)
qed

lemma exact_or_huge_start: "exact_or_huge 0 0"
  unfolding exact_or_huge_def by (intro disjI1 exI [of _ 0]) simp

lemma exact_or_huge_budget:
  assumes "exact_or_huge t s"
  shows "py_truediv t 1024 \<le> 8 \<longleftrightarrow> s \<le> 8192"
proof -
  from assms consider
      (exact) m :: nat where "m < 2 ^ 53" "t = of_nat m / 2 ^ 10" "s = t"
    | (huge) "2 ^ 43 \<le> t" "2 ^ 43 \<le> s"
    by (auto simp add: exact_or_huge_def)
  then show ?thesis
  proof cases
    case exact
    have e: "t / 1024 = of_nat m / 2 ^ 20" by (simp add: exact(2))
    have "py_truediv t 1024 = fl64 (of_nat m / 2 ^ 20)" by (simp only: py_truediv_def e)
    also have "\<dots> = of_nat m / 2 ^ 20" using exact(1) by (rule fl64_bytes_exact)
    finally have r: "py_truediv t 1024 = of_nat m / 2 ^ 20" .
    have a: "((of_nat m :: rat) / 2 ^ 20 \<le> 8) = ((of_nat m :: rat) / 2 ^ 10 \<le> 8192)"
      by (simp add: pos_divide_le_eq)
    have "(py_truediv t 1024 \<le> 8) = ((of_nat m :: rat) / 2 ^ 10 \<le> 8192)"
      by (simp only: r a)
    also have "\<dots> = (s \<le> 8192)" by (simp only: exact(3) exact(2))
    finally show ?thesis .
  next
    case huge
    from huge(1) have "2 powi 33 \<le> t / 1024" by simp
    then have "2 powi 33 \<le> py_truediv t 1024"
      unfolding py_truediv_def by (rule fl64_ge_power2)
    then have "\<not> py_truediv t 1024 \<le> 8" by simp
    moreover from huge(2) have "\<not> s \<le> 8192" by simp
    ultimately show ?thesis by simp
  qed
qed

lemma exact_or_huge_small:
  assumes "exact_or_huge t s" and "s < 2 ^ 43"
  shows "t = s" and "py_truediv t 1024 = s / 1024"
proof -
  from assms obtain m :: nat where m: "m < 2 ^ 53" "t = of_nat m / 2 ^ 10" "s = t"
    by (auto simp add: exact_or_huge_def)
  show "t = s" by (simp add: m(3))
  have e: "t / 1024 = of_nat m / 2 ^ 20" by (simp add: m(2))
  have "py_truediv t 1024 = fl64 (of_nat m / 2 ^ 20)" by (simp only: py_truediv_def e)
  also have "\<dots> = of_nat m / 2 ^ 20" using m(1) by (rule fl64_bytes_exact)
  finally have "py_truediv t 1024 = of_nat m / 2 ^ 20" .
  then show "py_truediv t 1024 = s / 1024" by (simp add: m(2,3))
qed

section \<open>Properties of download\_model.py\<close>

subsection \<open>Faults of the file system\<close>

lemma is_Exception_simps [simp]:
  "is_Exception (PyException ''FileNotFoundError'' s)"
  "is_Exception (PyException ''FileExistsError'' s)"
  "is_Exception (PyException ''IsADirectoryError'' s)"
  "is_Exception (PyException ''NotADirectoryError'' s)"
  "is_Exception (PyException ''OSError'' s)"
  "is_Exception (PyException ''URLError'' s)"
  "\<not> is_Exception (PyException ''KeyboardInterrupt'' s)"
  by (simp_all add: is_Exception_def)

lemma os_path_getsize_raises:
  assumes "os_path_getsize fsys p = Inl e"
  shows "is_Exception e"
  using assms by (auto simp add: os_path_getsize_def split: option.splits node.splits)

lemma write_entry_raises:
  assumes "write_entry fsys d name content = Inl e"
  shows "is_Exception e"
  using assms by (auto simp add: write_entry_def Let_def split: option.splits node.splits)

lemma open_write_raises:
  assumes "open_write fsys path content = Inl e"
  shows "is_Exception e"
  using assms by (auto simp add: open_write_def split: prod.splits dest: write_entry_raises)

subsection \<open>One call of download\_file\<close>

lemma retrieved_urlretrieve:
  "retrieved (snd (urlretrieve net url filename w)) = retrieved w @ [(url, filename)]"
  by (simp add: urlretrieve_def Let_def split: http_result.splits sum.splits)

lemma stdout_urlretrieve: "stdout (snd (urlretrieve net url filename w)) = stdout w"
  by (simp add: urlretrieve_def Let_def split: http_result.splits sum.splits)

lemma urlretrieve_raises:
  assumes "urlretrieve net url filename w = (Some e, w2)" and "uninterrupted (net url)"
  shows "is_Exception e"
  using assms
  by (auto simp add: urlretrieve_def Let_def split: http_result.splits sum.splits
      dest: open_write_raises)

lemma download_file_cases:
  obtains (failed) e w2 where
      "download_file net url output_path w = download_failed e w2"
      "retrieved w2 = retrieved w @ [(url, output_path)]"
      "stdout w2 = stdout w @ [''  Downloading '' @ os_path_basename output_path @ ''...'']"
      "uninterrupted (net url) \<longrightarrow> is_Exception e"
  | (downloaded) n w2 where
      "download_file net url output_path w =
         Inr (py_truediv (of_nat n) 1024,
              print (''    '' @ check_mark @ '' Downloaded ('' @
                     format_fixed 1 (py_truediv (of_nat n) 1024) @ '' KB)'') w2)"
      "retrieved w2 = retrieved w @ [(url, output_path)]"
      "stdout w2 = stdout w @ [''  Downloading '' @ os_path_basename output_path @ ''...'']"
proof -
  let ?w1 = "print (''  Downloading '' @ os_path_basename output_path @ ''...'') w"
  obtain r w2 where u: "urlretrieve net url output_path ?w1 = (r, w2)"
    by (cases "urlretrieve net url output_path ?w1")
  have ret: "retrieved w2 = retrieved w @ [(url, output_path)]"
    using retrieved_urlretrieve [of net url output_path ?w1] u by simp
  have out: "stdout w2 = stdout w @ [''  Downloading '' @ os_path_basename output_path @ ''...'']"
    using stdout_urlretrieve [of net url output_path ?w1] u by simp
  show thesis
  proof (cases r)
    case (Some e)
    with u have "download_file net url output_path w = download_failed e w2"
      by (simp add: download_file_def Let_def)
    moreover from u Some have "uninterrupted (net url) \<longrightarrow> is_Exception e"
      by (auto dest: urlretrieve_raises)
    ultimately show thesis using ret out by (intro failed)
  next
    case None
    show thesis
    proof (cases "os_path_getsize (fs w2) output_path")
      case (Inl e)
      with None u have "download_file net url output_path w = download_failed e w2"
        by (simp add: download_file_def Let_def)
      moreover from Inl have "uninterrupted (net url) \<longrightarrow> is_Exception e"
        by (auto dest: os_path_getsize_raises)
      ultimately show thesis using ret out by (intro failed)
    next
      case (Inr n)
      with None u have "download_file net url output_path w =
         Inr (py_truediv (of_nat n) 1024,
              print (''    '' @ check_mark @ '' Downloaded ('' @
                     format_fixed 1 (py_truediv (of_nat n) 1024) @ '' KB)'') w2)"
        by (simp add: download_file_def Let_def)
      then show thesis using ret out by (rule downloaded)
    qed
  qed
qed

lemma zero_kb_sizes: "0 \<in> kb_sizes"
  unfolding kb_sizes_def by (rule CollectI, rule exI [of _ 0]) (simp add: fl64_def)

text \<open>What a call that returns has done.\<close>

lemma download_file_Inr:
  assumes "download_file net url output_path w = Inr (size_kb, w')"
  shows "retrieved w' = retrieved w @ [(url, output_path)]"
    and "size_kb \<in> kb_sizes"
    and "\<exists>a b. stdout w' = stdout w @ [a, b]
           \<and> a \<noteq> success_line_download \<and> b \<noteq> success_line_download"
proof -
  have "retrieved w' = retrieved w @ [(url, output_path)] \<and> size_kb \<in> kb_sizes
      \<and> (\<exists>a b. stdout w' = stdout w @ [a, b]
           \<and> a \<noteq> success_line_download \<and> b \<noteq> success_line_download)"
  proof (rule download_file_cases [of net url output_path w])
    fix e w2
    assume "download_file net url output_path w = download_failed e w2"
      and "retrieved w2 = retrieved w @ [(url, output_path)]"
      and "stdout w2 = stdout w @ [''  Downloading '' @ os_path_basename output_path @ ''...'']"
    with assms show ?thesis
      by (auto simp add: download_failed_def zero_kb_sizes success_line_download_def
          white_heavy_check_mark_def split: if_splits)
  next
    fix n w2
    assume "download_file net url output_path w =
         Inr (py_truediv (of_nat n) 1024,
              print (''    '' @ check_mark @ '' Downloaded ('' @
                     format_fixed 1 (py_truediv (of_nat n) 1024) @ '' KB)'') w2)"
      and "retrieved w2 = retrieved w @ [(url, output_path)]"
      and "stdout w2 = stdout w @ [''  Downloading '' @ os_path_basename output_path @ ''...'']"
    with assms show ?thesis
      by (auto simp add: kb_sizes_def py_truediv_def success_line_download_def
          white_heavy_check_mark_def)
  qed
  then show "retrieved w' = retrieved w @ [(url, output_path)]"
    and "size_kb \<in> kb_sizes"
    and "\<exists>a b. stdout w' = stdout w @ [a, b]
           \<and> a \<noteq> success_line_download \<and> b \<noteq> success_line_download"
    by blast+
qed

text \<open>A call that no interrupt cuts short returns.\<close>

lemma download_file_returns:
  assumes "uninterrupted (net url)"
  shows "\<exists>size_kb w'. download_file net url output_path w = Inr (size_kb, w')"
  by (rule download_file_cases [of net url output_path w])
     (use assms in \<open>simp_all add: download_failed_def\<close>)

subsection \<open>The loops\<close>

lemma download_files_returned:
  "download_files net files (total_size, w) =
     (case returned_by_files net files w of
        Inl e \<Rightarrow> Inl e
      | Inr (sizes, w') \<Rightarrow> Inr (foldl py_add total_size sizes, w'))"
  by (induction files arbitrary: total_size w) (simp_all add: Let_def split: sum.splits prod.splits)

lemma download_models_returned:
  "download_models net models (total_size, w) =
     (case returned_by_models net models w of
        Inl e \<Rightarrow> Inl e
      | Inr (sizes, w') \<Rightarrow> Inr (foldl py_add total_size sizes, w'))"
proof (induction models arbitrary: total_size w)
  case Nil
  show ?case by simp
next
  case (Cons m models)
  obtain model_name files where m: "m = (model_name, files)" by (cases m)
  show ?case
    by (simp add: m download_files_returned Cons.IH split: sum.splits prod.splits)
qed

lemma returned_by_files_props:
  assumes "returned_by_files net files w = Inr (sizes, w')"
  shows "set sizes \<subseteq> kb_sizes \<and> length sizes = length files
   \<and> retrieved w' = retrieved w @ planned files
   \<and> (\<exists>new. stdout w' = stdout w @ new \<and> success_line_download \<notin> set new)"
  using assms
proof (induction files arbitrary: w sizes)
  case Nil
  then show ?case by (simp add: planned_def)
next
  case (Cons filename files)
  from Cons.prems obtain size_kb w1 rest where
    d: "download_file net (BASE_URL @ ''/'' @ filename) (os_path_join OUTPUT_DIR filename) w
          = Inr (size_kb, w1)"
    and r: "returned_by_files net files w1 = Inr (rest, w')"
    and s: "sizes = size_kb # rest"
    by (auto split: sum.splits prod.splits)
  note D = download_file_Inr [OF d]
  from D(3) obtain a b where ab: "stdout w1 = stdout w @ [a, b]"
      "a \<noteq> success_line_download" "b \<noteq> success_line_download"
    by blast
  from Cons.IH [OF r] obtain new where new:
      "stdout w' = stdout w1 @ new" "success_line_download \<notin> set new"
    and rest: "set rest \<subseteq> kb_sizes" "length rest = length files"
      "retrieved w' = retrieved w1 @ planned files"
    by blast
  have "stdout w' = stdout w @ ([a, b] @ new)" using ab(1) new(1) by simp
  moreover have "success_line_download \<notin> set ([a, b] @ new)" using ab(2,3) new(2) by auto
  ultimately have "\<exists>new. stdout w' = stdout w @ new \<and> success_line_download \<notin> set new"
    by blast
  moreover have "set sizes \<subseteq> kb_sizes" using rest(1) D(2) s by simp
  moreover have "length sizes = length (filename # files)" using rest(2) s by simp
  moreover have "retrieved w' = retrieved w @ planned (filename # files)"
    using rest(3) D(1) by (simp add: planned_def)
  ultimately show ?case by blast
qed

lemma returned_by_files_returns:
  assumes "list_all (\<lambda>filename. uninterrupted (net (BASE_URL @ ''/'' @ filename))) files"
  shows "\<exists>sizes w'. returned_by_files net files w = Inr (sizes, w')"
  using assms
proof (induction files arbitrary: w)
  case Nil
  show ?case by simp
next
  case (Cons filename files)
  from Cons.prems have "uninterrupted (net (BASE_URL @ ''/'' @ filename))" by simp
  with download_file_returns [of net "BASE_URL @ ''/'' @ filename"
      "os_path_join OUTPUT_DIR filename" w] obtain size_kb w1 where
    "download_file net (BASE_URL @ ''/'' @ filename) (os_path_join OUTPUT_DIR filename) w
       = Inr (size_kb, w1)" by blast
  moreover from Cons.IH [of w1] Cons.prems obtain sizes w' where
    "returned_by_files net files w1 = Inr (sizes, w')" by auto
  ultimately show ?case by simp
qed

lemma returned_by_models_props:
  assumes "returned_by_models net models w = Inr (sizes, w')"
  shows "set sizes \<subseteq> kb_sizes \<and> length sizes = length (concat (map snd models))
   \<and> retrieved w' = retrieved w @ planned (concat (map snd models))
   \<and> (\<exists>new. stdout w' = stdout w @ new \<and> success_line_download \<notin> set new)"
  using assms
proof (induction models arbitrary: w sizes)
  case Nil
  then show ?case by (simp add: planned_def)
next
  case (Cons m models)
  obtain model_name files where m: "m = (model_name, files)" by (cases m)
  let ?w1 = "print (newline # ''Downloading '' @ model_name @ ''...'') w"
  from Cons.prems obtain sizes1 w1 sizes2 where
    f: "returned_by_files net files ?w1 = Inr (sizes1, w1)"
    and r: "returned_by_models net models w1 = Inr (sizes2, w')"
    and s: "sizes = sizes1 @ sizes2"
    by (auto simp add: m split: sum.splits prod.splits)
  from returned_by_files_props [OF f] obtain new1 where new1:
      "stdout w1 = stdout ?w1 @ new1" "success_line_download \<notin> set new1"
    and F: "set sizes1 \<subseteq> kb_sizes" "length sizes1 = length files"
      "retrieved w1 = retrieved ?w1 @ planned files"
    by blast
  from Cons.IH [OF r] obtain new2 where new2:
      "stdout w' = stdout w1 @ new2" "success_line_download \<notin> set new2"
    and M: "set sizes2 \<subseteq> kb_sizes" "length sizes2 = length (concat (map snd models))"
      "retrieved w' = retrieved w1 @ planned (concat (map snd models))"
    by blast
  have "stdout w' = stdout w @ ((newline # ''Downloading '' @ model_name @ ''...'') # new1 @ new2)"
    using new1(1) new2(1) by simp
  moreover have "success_line_download
      \<notin> set ((newline # ''Downloading '' @ model_name @ ''...'') # new1 @ new2)"
    using new1(2) new2(2)
    by (simp add: success_line_download_def white_heavy_check_mark_def newline_def)
  ultimately have "\<exists>new. stdout w' = stdout w @ new \<and> success_line_download \<notin> set new"
    by blast
  moreover have "set sizes \<subseteq> kb_sizes" using F(1) M(1) s by simp
  moreover have "length sizes = length (concat (map snd (m # models)))"
    using F(2) M(2) s by (simp add: m)
  moreover have "retrieved w' = retrieved w @ planned (concat (map snd (m # models)))"
    using F(3) M(3) by (simp add: m planned_def)
  ultimately show ?case by blast
qed

lemma returned_by_models_returns:
  assumes "list_all (\<lambda>filename. uninterrupted (net (BASE_URL @ ''/'' @ filename)))
             (concat (map snd models))"
  shows "\<exists>sizes w'. returned_by_models net models w = Inr (sizes, w')"
  using assms
proof (induction models arbitrary: w)
  case Nil
  show ?case by simp
next
  case (Cons m models)
  obtain model_name files where m: "m = (model_name, files)" by (cases m)
  let ?w1 = "print (newline # ''Downloading '' @ model_name @ ''...'') w"
  from Cons.prems have "list_all (\<lambda>filename. uninterrupted (net (BASE_URL @ ''/'' @ filename))) files"
    by (simp add: m)
  from returned_by_files_returns [OF this] obtain sizes1 w1 where
    "returned_by_files net files ?w1 = Inr (sizes1, w1)" by blast
  moreover from Cons.IH [of w1] Cons.prems obtain sizes2 w' where
    "returned_by_models net models w1 = Inr (sizes2, w')" by (auto simp add: m)
  ultimately show ?case by (simp add: m)
qed

subsection \<open>main\<close>

lemma fs_print_header [simp]: "fs (print_header w) = fs w"
  and retrieved_print_header [simp]: "retrieved (print_header w) = retrieved w"
  by (simp_all add: print_header_def Let_def)

lemma retrieved_report_download [simp]: "retrieved (report_download total_size w) = retrieved w"
  by (simp add: report_download_def Let_def)

lemma stdout_print_header:
  "stdout (print_header w) = stdout w @
     [replicate 70 (CHR ''=''), ''FACE RECOGNITION MODEL DOWNLOADER'',
      ''Downloading pre-built TensorFlow.js models from face-api.js'',
      replicate 70 (CHR ''=''), []]"
  by (simp add: print_header_def Let_def)

lemma stdout_report_download:
  "stdout (report_download total_size w) = stdout w @
     [newline # replicate 70 (CHR ''=''), total_line total_size, replicate 70 (CHR ''='')] @
     (if py_truediv total_size 1024 \<le> 8 then [success_line_download] else []) @
     [newline # check_mark @ '' Downloaded to: '' @ OUTPUT_DIR @ ''/'', []]"
  by (simp add: report_download_def Let_def)

text \<open>What a run of \<open>main\<close> comes to: the header, the directory, the loops, the report.\<close>

lemma main_download_Inl:
  assumes "os_makedirs (fs w) OUTPUT_DIR = Inl e"
  shows "main_download net w = Inl e"
  using assms by (simp add: main_download_def Let_def)

lemma main_download_interrupted:
  assumes "os_makedirs (fs w) OUTPUT_DIR = Inr fsys"
    and "returned_by_models net MODELS ((print_header w)\<lparr>fs := fsys\<rparr>) = Inl e"
  shows "main_download net w = Inl e"
  using assms by (simp add: main_download_def download_models_returned Let_def)

lemma main_download_Inr:
  assumes "os_makedirs (fs w) OUTPUT_DIR = Inr fsys"
    and "returned_by_models net MODELS ((print_header w)\<lparr>fs := fsys\<rparr>) = Inr (sizes, w6)"
  shows "main_download net w = Inr (report_download (foldl py_add 0 sizes) w6)"
    and "returned_sizes net w = sizes"
  using assms
  by (simp_all add: main_download_def returned_sizes_def download_models_returned Let_def)

text \<open>The run returns when the directory can be made and no request is interrupted.\<close>

lemma main_download_returns:
  assumes "os_makedirs (fs w) OUTPUT_DIR = Inr fsys" and "never_interrupted net"
  obtains w6 where
    "returned_by_models net MODELS ((print_header w)\<lparr>fs := fsys\<rparr>) = Inr (returned_sizes net w, w6)"
    "main_download net w = Inr (report_download (foldl py_add 0 (returned_sizes net w)) w6)"
proof -
  from assms(2) returned_by_models_returns [of net MODELS "(print_header w)\<lparr>fs := fsys\<rparr>"]
  obtain sizes w6 where
    r: "returned_by_models net MODELS ((print_header w)\<lparr>fs := fsys\<rparr>) = Inr (sizes, w6)"
    by (auto simp add: never_interrupted_def)
  from main_download_Inr [OF assms(1) r] r show thesis by (intro that [of w6]) simp_all
qed

text \<open>A run that returns has made the directory and gone through the loops.\<close>

lemma main_download_returned:
  assumes "main_download net w = Inr w'"
  obtains fsys w6 where
    "os_makedirs (fs w) OUTPUT_DIR = Inr fsys"
    "returned_by_models net MODELS ((print_header w)\<lparr>fs := fsys\<rparr>) = Inr (returned_sizes net w, w6)"
    "w' = report_download (foldl py_add 0 (returned_sizes net w)) w6"
proof -
  from assms obtain fsys where mk: "os_makedirs (fs w) OUTPUT_DIR = Inr fsys"
    by (cases "os_makedirs (fs w) OUTPUT_DIR") (simp_all add: main_download_Inl)
  from assms mk obtain sizes w6 where
    r: "returned_by_models net MODELS ((print_header w)\<lparr>fs := fsys\<rparr>) = Inr (sizes, w6)"
    by (cases "returned_by_models net MODELS ((print_header w)\<lparr>fs := fsys\<rparr>)")
       (auto simp add: main_download_interrupted)
  from main_download_Inr [OF mk r] assms r mk show thesis by (intro that [of fsys w6]) simp_all
qed

lemma returned_sizes_tracked:
  "exact_or_huge (foldl py_add 0 (returned_sizes net w)) (sum_list (returned_sizes net w))"
proof -
  have "set (returned_sizes net w) \<subseteq> kb_sizes"
  proof (cases "os_makedirs (fs (print_header w)) OUTPUT_DIR")
    case (Inl e)
    then show ?thesis by (simp add: returned_sizes_def)
  next
    case (Inr fsys)
    show ?thesis
    proof (cases "returned_by_models net MODELS ((print_header w)\<lparr>fs := fsys\<rparr>)")
      case (Inl e)
      with Inr show ?thesis by (simp add: returned_sizes_def)
    next
      case r: (Inr p)
      obtain sizes w6 where p: "p = (sizes, w6)" by (cases p)
      from returned_by_models_props [OF r [unfolded p]] Inr r p
      show ?thesis by (simp add: returned_sizes_def)
    qed
  qed
  from exact_or_huge_foldl [OF exact_or_huge_start this] show ?thesis by simp
qed

text \<open>The lines a returning run of \<open>main\<close> adds to standard output.\<close>

lemma stdout_main_download:
  assumes "main_download net w = Inr w'"
  obtains new where
    "stdout w' = stdout w @
       [replicate 70 (CHR ''=''), ''FACE RECOGNITION MODEL DOWNLOADER'',
        ''Downloading pre-built TensorFlow.js models from face-api.js'',
        replicate 70 (CHR ''=''), []] @ new @
       [newline # replicate 70 (CHR ''=''),
        total_line (foldl py_add 0 (returned_sizes net w)), replicate 70 (CHR ''='')] @
       (if py_truediv (foldl py_add 0 (returned_sizes net w)) 1024 \<le> 8
        then [success_line_download] else []) @
       [newline # check_mark @ '' Downloaded to: '' @ OUTPUT_DIR @ ''/'', []]"
    "success_line_download \<notin> set new"
proof -
  from assms obtain fsys w6 where
    r: "returned_by_models net MODELS ((print_header w)\<lparr>fs := fsys\<rparr>)
          = Inr (returned_sizes net w, w6)"
    and w': "w' = report_download (foldl py_add 0 (returned_sizes net w)) w6"
    by (rule main_download_returned)
  let ?w5 = "(print_header w)\<lparr>fs := fsys\<rparr>"
  from returned_by_models_props [OF r] obtain new where
    new: "stdout w6 = stdout ?w5 @ new" "success_line_download \<notin> set new" by blast
  have "stdout ?w5 = stdout (print_header w)" by simp
  with new(1) have "stdout w6 = stdout w @
       [replicate 70 (CHR ''=''), ''FACE RECOGNITION MODEL DOWNLOADER'',
        ''Downloading pre-built TensorFlow.js models from face-api.js'',
        replicate 70 (CHR ''=''), []] @ new"
    by (simp only: stdout_print_header append_assoc)
  then have "stdout w' = stdout w @
       [replicate 70 (CHR ''=''), ''FACE RECOGNITION MODEL DOWNLOADER'',
        ''Downloading pre-built TensorFlow.js models from face-api.js'',
        replicate 70 (CHR ''=''), []] @ new @
       [newline # replicate 70 (CHR ''=''),
        total_line (foldl py_add 0 (returned_sizes net w)), replicate 70 (CHR ''='')] @
       (if py_truediv (foldl py_add 0 (returned_sizes net w)) 1024 \<le> 8
        then [success_line_download] else []) @
       [newline # check_mark @ '' Downloaded to: '' @ OUTPUT_DIR @ ''/'', []]"
    by (simp only: w' stdout_report_download append_assoc)
  then show thesis using new(2) by (rule that)
qed

lemma success_line_download_distinct:
  "success_line_download \<noteq> replicate 70 (CHR ''='')"
  "success_line_download \<noteq> ''FACE RECOGNITION MODEL DOWNLOADER''"
  "success_line_download \<noteq> ''Downloading pre-built TensorFlow.js models from face-api.js''"
  "success_line_download \<noteq> []"
  "success_line_download \<noteq> newline # s"
  "success_line_download \<noteq> total_line t"
  by (simp_all add: success_line_download_def white_heavy_check_mark_def newline_def
        total_line_def eval_nat_numeral)

lemma success_line_printed_iff:
  assumes "main_download net w = Inr w'"
  shows "success_line_download \<in> set (drop (length (stdout w)) (stdout w'))
           \<longleftrightarrow> sum_list (returned_sizes net w) \<le> 8192"
proof -
  from assms obtain new where out: "stdout w' = stdout w @
       [replicate 70 (CHR ''=''), ''FACE RECOGNITION MODEL DOWNLOADER'',
        ''Downloading pre-built TensorFlow.js models from face-api.js'',
        replicate 70 (CHR ''=''), []] @ new @
       [newline # replicate 70 (CHR ''=''),
        total_line (foldl py_add 0 (returned_sizes net w)), replicate 70 (CHR ''='')] @
       (if py_truediv (foldl py_add 0 (returned_sizes net w)) 1024 \<le> 8
        then [success_line_download] else []) @
       [newline # check_mark @ '' Downloaded to: '' @ OUTPUT_DIR @ ''/'', []]"
    and new: "success_line_download \<notin> set new"
    by (rule stdout_main_download)
  have "success_line_download \<in> set (drop (length (stdout w)) (stdout w'))
      \<longleftrightarrow> py_truediv (foldl py_add 0 (returned_sizes net w)) 1024 \<le> 8"
    unfolding out using new success_line_download_distinct by simp
  also have "\<dots> \<longleftrightarrow> sum_list (returned_sizes net w) \<le> 8192"
    using returned_sizes_tracked by (rule exact_or_huge_budget)
  finally show ?thesis .
qed

lemma total_line_printed:
  assumes "main_download net w = Inr w'"
  shows "total_line (foldl py_add 0 (returned_sizes net w))
           \<in> set (drop (length (stdout w)) (stdout w'))"
proof -
  from assms obtain new where out: "stdout w' = stdout w @
       [replicate 70 (CHR ''=''), ''FACE RECOGNITION MODEL DOWNLOADER'',
        ''Downloading pre-built TensorFlow.js models from face-api.js'',
        replicate 70 (CHR ''=''), []] @ new @
       [newline # replicate 70 (CHR ''=''),
        total_line (foldl py_add 0 (returned_sizes net w)), replicate 70 (CHR ''='')] @
       (if py_truediv (foldl py_add 0 (returned_sizes net w)) 1024 \<le> 8
        then [success_line_download] else []) @
       [newline # check_mark @ '' Downloaded to: '' @ OUTPUT_DIR @ ''/'', []]"
    by (rule stdout_main_download)
  show ?thesis unfolding out by simp
qed

lemma planned_MODELS:
  "planned (concat (map snd MODELS)) =
     map (\<lambda>filename. (BASE_URL @ ''/'' @ filename, OUTPUT_DIR @ ''/'' @ filename))
       (concat (map snd MODELS))"
  by (simp add: planned_def MODELS_def os_path_join_def OUTPUT_DIR_def)

lemma main_download_retrieved:
  assumes "main_download net w = Inr w'"
  shows "retrieved w' = retrieved w @ planned (concat (map snd MODELS))"
    and "length (returned_sizes net w) = length (concat (map snd MODELS))"
proof -
  from assms obtain fsys w6 where
    r: "returned_by_models net MODELS ((print_header w)\<lparr>fs := fsys\<rparr>)
          = Inr (returned_sizes net w, w6)"
    and w': "w' = report_download (foldl py_add 0 (returned_sizes net w)) w6"
    by (rule main_download_returned)
  from returned_by_models_props [OF r] w'
  show "retrieved w' = retrieved w @ planned (concat (map snd MODELS))"
    and "length (returned_sizes net w) = length (concat (map snd MODELS))"
    by simp_all
qed

lemma main_download_total:
  assumes "os_makedirs (fs w) OUTPUT_DIR = Inr fsys" and "never_interrupted net"
  shows "\<exists>w'. main_download net w = Inr w'"
  using main_download_returns [OF assms] by blast

text \<open>The concrete situations.\<close>

lemma fl64_one: "fl64 1 = 1"
  using fl64_exact [of 1 0] by simp

lemma os_makedirs_fresh_world:
  "os_makedirs (fs fresh_world) OUTPUT_DIR = Inr ((fs fresh_world)(OUTPUT_DIR \<mapsto> Dir []))"
  by (simp add: os_makedirs_def fresh_world_def)

lemma never_interrupted_one_kb_files: "never_interrupted one_kb_files"
  by (simp add: never_interrupted_def one_kb_files_def MODELS_def)

lemma never_interrupted_offline: "never_interrupted offline"
  by (simp add: never_interrupted_def offline_def MODELS_def)

lemma returned_sizes_one_kb_files:
  "returned_sizes one_kb_files fresh_world = [1, 1, 1, 1, 1, 1, 1]"
  by (simp add: returned_sizes_def fresh_world_def one_kb_files_def MODELS_def OUTPUT_DIR_def
      BASE_URL_def os_makedirs_def print_header_def print_def Let_def download_file_def
      urlretrieve_def open_write_def os_path_split_def os_path_basename_def os_path_join_def
      write_entry_def os_path_getsize_def py_truediv_def fl64_one newline_def)

lemma returned_sizes_offline:
  "returned_sizes offline fresh_world = [0, 0, 0, 0, 0, 0, 0]"
  by (simp add: returned_sizes_def fresh_world_def offline_def MODELS_def OUTPUT_DIR_def
      BASE_URL_def os_makedirs_def print_header_def print_def Let_def download_file_def
      urlretrieve_def download_failed_def os_path_join_def)

subsection \<open>The claims about the fetch pipeline\<close>

text \<open>
  Claim C1. Every run of \<open>main\<close> that returns has printed the success line exactly when the
  sum of the sizes that the calls of \<open>download_file\<close> returned is at most 8192 (KB); and the
  run does return when the output directory can be made and no request is interrupted. The
  sum is the exact one: the float total that the code compares gives the same verdict for
  every sequence of sizes.
\<close>

theorem success_line_iff_within_budget:
  "(\<forall>w'. main_download net w = Inr w' \<longrightarrow>
        (success_line_download \<in> set (drop (length (stdout w)) (stdout w'))
           \<longleftrightarrow> sum_list (returned_sizes net w) \<le> 8192))
   \<and> ((\<exists>fsys. os_makedirs (fs w) OUTPUT_DIR = Inr fsys) \<and> never_interrupted net
        \<longrightarrow> (\<exists>w'. main_download net w = Inr w'))"
  using success_line_printed_iff main_download_total by blast

theorem success_line_iff_within_budget_witness:
  "\<exists>w'. main_download one_kb_files fresh_world = Inr w'
     \<and> sum_list (returned_sizes one_kb_files fresh_world) = 7
     \<and> success_line_download \<in> set (drop (length (stdout fresh_world)) (stdout w'))"
  using success_line_iff_within_budget [of one_kb_files fresh_world]
    os_makedirs_fresh_world never_interrupted_one_kb_files
  by (simp add: returned_sizes_one_kb_files) blast

text \<open>
  Claim C2, amended. An exception of class \<open>Exception\<close> that \<open>urlretrieve\<close> raises is caught in
  \<open>download_file\<close>: the call prints the error line and returns 0. No call that is not
  interrupted lets an exception through. So, when the output directory can be made and no
  request is interrupted, \<open>main\<close> returns after seven calls of \<open>download_file\<close>, each of which
  returned a size, whether the downloads failed or not.
\<close>

theorem download_faults_contained:
  "(\<forall>url output_path w e w2.
      urlretrieve net url output_path
        (print (''  Downloading '' @ os_path_basename output_path @ ''...'') w) = (Some e, w2)
      \<and> is_Exception e \<longrightarrow>
      download_file net url output_path w =
        Inr (0, print (''    '' @ ballot_x @ '' Error: '' @ exc_msg e) w2))
   \<and> (\<forall>url output_path w. uninterrupted (net url) \<longrightarrow>
        (\<exists>size_kb w'. download_file net url output_path w = Inr (size_kb, w')))
   \<and> ((\<exists>fsys. os_makedirs (fs w0) OUTPUT_DIR = Inr fsys) \<and> never_interrupted net \<longrightarrow>
        (\<exists>w'. main_download net w0 = Inr w' \<and> length (returned_sizes net w0) = 7
           \<and> length (retrieved w') = length (retrieved w0) + 7))"
proof (intro conjI allI impI)
  fix url output_path w e w2
  assume "urlretrieve net url output_path
        (print (''  Downloading '' @ os_path_basename output_path @ ''...'') w) = (Some e, w2)
      \<and> is_Exception e"
  then show "download_file net url output_path w =
        Inr (0, print (''    '' @ ballot_x @ '' Error: '' @ exc_msg e) w2)"
    by (simp add: download_file_def download_failed_def Let_def)
next
  fix url output_path w
  assume "uninterrupted (net url)"
  then show "\<exists>size_kb w'. download_file net url output_path w = Inr (size_kb, w')"
    by (rule download_file_returns)
next
  assume "(\<exists>fsys. os_makedirs (fs w0) OUTPUT_DIR = Inr fsys) \<and> never_interrupted net"
  then obtain w' where run: "main_download net w0 = Inr w'"
    using main_download_total by blast
  from main_download_retrieved [OF run] run
  show "\<exists>w'. main_download net w0 = Inr w' \<and> length (returned_sizes net w0) = 7
           \<and> length (retrieved w') = length (retrieved w0) + 7"
    by (simp add: planned_def MODELS_def)
qed

theorem download_faults_contained_witness:
  "(\<exists>w2. download_file offline ''u'' ''d/f'' fresh_world =
       Inr (0, print (''    '' @ ballot_x @ '' Error: <urlopen error timed out>'') w2))
   \<and> (\<exists>w'. main_download offline fresh_world = Inr w'
         \<and> returned_sizes offline fresh_world = [0, 0, 0, 0, 0, 0, 0]
         \<and> length (retrieved w') = 7)"
proof -
  let ?w1 = "print (''  Downloading '' @ os_path_basename ''d/f'' @ ''...'') fresh_world"
  let ?e = "PyException ''URLError'' ''<urlopen error timed out>''"
  let ?w2 = "?w1\<lparr>retrieved := retrieved ?w1 @ [(''u'', ''d/f'')]\<rparr>"
  note T = download_faults_contained [of offline fresh_world]
  have u: "urlretrieve offline ''u'' ''d/f'' ?w1 = (Some ?e, ?w2) \<and> is_Exception ?e"
    by (simp add: urlretrieve_def offline_def Let_def)
  from T have "urlretrieve offline ''u'' ''d/f'' ?w1 = (Some ?e, ?w2) \<and> is_Exception ?e \<longrightarrow>
      download_file offline ''u'' ''d/f'' fresh_world =
        Inr (0, print (''    '' @ ballot_x @ '' Error: '' @ exc_msg ?e) ?w2)"
    by blast
  with u have "download_file offline ''u'' ''d/f'' fresh_world =
       Inr (0, print (''    '' @ ballot_x @ '' Error: '' @ exc_msg ?e) ?w2)"
    by blast
  then have "\<exists>w2. download_file offline ''u'' ''d/f'' fresh_world =
       Inr (0, print (''    '' @ ballot_x @ '' Error: <urlopen error timed out>'') w2)"
    by auto
  moreover from T os_makedirs_fresh_world never_interrupted_offline
  have "\<exists>w'. main_download offline fresh_world = Inr w'
         \<and> length (returned_sizes offline fresh_world) = 7
         \<and> length (retrieved w') = length (retrieved fresh_world) + 7"
    by blast
  then have "\<exists>w'. main_download offline fresh_world = Inr w'
         \<and> returned_sizes offline fresh_world = [0, 0, 0, 0, 0, 0, 0]
         \<and> length (retrieved w') = 7"
    using returned_sizes_offline by (simp add: fresh_world_def [THEN arg_cong [of _ _ retrieved]])
  ultimately show ?thesis by blast
qed

text \<open>
  The claim as it was worded, for any exception: when the user interrupts the first request,
  \<open>KeyboardInterrupt\<close> passes the handler of \<open>download_file\<close> and ends \<open>main\<close>.
\<close>

theorem download_faults_contained_counterexample:
  "download_file interrupted (BASE_URL @ ''/tiny_face_detector_model-weights_manifest.json'')
       (os_path_join OUTPUT_DIR ''tiny_face_detector_model-weights_manifest.json'') fresh_world
     = Inl (PyException ''KeyboardInterrupt'' [])
   \<and> main_download interrupted fresh_world = Inl (PyException ''KeyboardInterrupt'' [])"
proof
  show "download_file interrupted (BASE_URL @ ''/tiny_face_detector_model-weights_manifest.json'')
       (os_path_join OUTPUT_DIR ''tiny_face_detector_model-weights_manifest.json'') fresh_world
     = Inl (PyException ''KeyboardInterrupt'' [])"
    by (simp add: download_file_def urlretrieve_def interrupted_def download_failed_def Let_def)
  have "returned_by_models interrupted MODELS
          ((print_header fresh_world)\<lparr>fs := (fs fresh_world)(OUTPUT_DIR \<mapsto> Dir [])\<rparr>)
        = Inl (PyException ''KeyboardInterrupt'' [])"
    by (simp add: MODELS_def download_file_def urlretrieve_def interrupted_def
        download_failed_def Let_def)
  with os_makedirs_fresh_world
  show "main_download interrupted fresh_world = Inl (PyException ''KeyboardInterrupt'' [])"
    by (rule main_download_interrupted)
qed

text \<open>
  Claim C3. In every run of \<open>main\<close> that returns, seven sizes were returned by
  \<open>download_file\<close>, and the total line printed is the one of their running float sum, each
  size added once in the order of the calls. Below \<open>2^43\<close> KB no addition and no division
  rounds: the number printed is the exact sum of the seven sizes divided by 1024, to two
  decimal places. The run returns when the output directory can be made and no request is
  interrupted.
\<close>

theorem total_line_is_sum:
  "(\<forall>w'. main_download net w = Inr w' \<longrightarrow>
        length (returned_sizes net w) = 7
        \<and> total_line (foldl py_add 0 (returned_sizes net w))
             \<in> set (drop (length (stdout w)) (stdout w'))
        \<and> (sum_list (returned_sizes net w) < 2 ^ 43 \<longrightarrow>
             total_line (foldl py_add 0 (returned_sizes net w)) =
               ''TOTAL MODEL SIZE: '' @ format_fixed 2 (sum_list (returned_sizes net w) / 1024)
                 @ '' MB''))
   \<and> ((\<exists>fsys. os_makedirs (fs w) OUTPUT_DIR = Inr fsys) \<and> never_interrupted net
        \<longrightarrow> (\<exists>w'. main_download net w = Inr w'))"
proof (intro conjI allI impI)
  fix w' assume run: "main_download net w = Inr w'"
  from main_download_retrieved(2) [OF run]
  show "length (returned_sizes net w) = 7" by (simp add: MODELS_def)
  from run show "total_line (foldl py_add 0 (returned_sizes net w))
             \<in> set (drop (length (stdout w)) (stdout w'))"
    by (rule total_line_printed)
  assume "sum_list (returned_sizes net w) < 2 ^ 43"
  with returned_sizes_tracked
  have "py_truediv (foldl py_add 0 (returned_sizes net w)) 1024
      = sum_list (returned_sizes net w) / 1024"
    by (rule exact_or_huge_small)
  then show "total_line (foldl py_add 0 (returned_sizes net w)) =
               ''TOTAL MODEL SIZE: '' @ format_fixed 2 (sum_list (returned_sizes net w) / 1024)
                 @ '' MB''"
    by (simp only: total_line_def)
next
  assume "(\<exists>fsys. os_makedirs (fs w) OUTPUT_DIR = Inr fsys) \<and> never_interrupted net"
  then show "\<exists>w'. main_download net w = Inr w'" using main_download_total by blast
qed

lemma format_fixed_7_KB: "format_fixed 2 (7 / 1024) = ''0.01''"
  by code_simp

theorem total_line_is_sum_witness:
  "\<exists>w'. main_download one_kb_files fresh_world = Inr w'
     \<and> returned_sizes one_kb_files fresh_world = [1, 1, 1, 1, 1, 1, 1]
     \<and> ''TOTAL MODEL SIZE: 0.01 MB'' \<in> set (stdout w')"
proof -
  from total_line_is_sum [of one_kb_files fresh_world]
    os_makedirs_fresh_world never_interrupted_one_kb_files
  obtain w' where run: "main_download one_kb_files fresh_world = Inr w'"
    and line: "total_line (foldl py_add 0 (returned_sizes one_kb_files fresh_world))
             \<in> set (drop (length (stdout fresh_world)) (stdout w'))"
    and exact: "sum_list (returned_sizes one_kb_files fresh_world) < 2 ^ 43 \<longrightarrow>
             total_line (foldl py_add 0 (returned_sizes one_kb_files fresh_world)) =
               ''TOTAL MODEL SIZE: '' @
               format_fixed 2 (sum_list (returned_sizes one_kb_files fresh_world) / 1024)
                 @ '' MB''"
    by blast
  from exact have "total_line (foldl py_add 0 (returned_sizes one_kb_files fresh_world)) =
      ''TOTAL MODEL SIZE: 0.01 MB''"
    by (simp add: returned_sizes_one_kb_files format_fixed_7_KB)
  with line have "''TOTAL MODEL SIZE: 0.01 MB'' \<in> set (stdout w')"
    by (simp add: fresh_world_def)
  with run show ?thesis by (simp add: returned_sizes_one_kb_files)
qed

text \<open>
  Claim C8, amended. When the output directory exists or can be made and no request is
  interrupted, \<open>main\<close> returns and has called \<open>urlretrieve\<close> exactly seven times, once for each
  file name of the manifest in its order (two files of \<open>tiny_face_detector\<close>, two of
  \<open>face_landmark_68_tiny\<close>, three of \<open>face_recognition\<close>), whatever the network answered. Each
  URL is \<open>BASE_URL\<close>, a slash and the file name; each local path is \<open>OUTPUT_DIR\<close>, a slash and
  the file name. Every run that returns has made exactly these calls.
\<close>

theorem main_download_attempts:
  "(\<forall>w'. main_download net w = Inr w' \<longrightarrow>
        retrieved w' = retrieved w @
           map (\<lambda>filename. (BASE_URL @ ''/'' @ filename, OUTPUT_DIR @ ''/'' @ filename))
             (concat (map snd MODELS)))
   \<and> ((\<exists>fsys. os_makedirs (fs w) OUTPUT_DIR = Inr fsys) \<and> never_interrupted net
        \<longrightarrow> (\<exists>w'. main_download net w = Inr w'))
   \<and> length (concat (map snd MODELS)) = 7
   \<and> map (\<lambda>(model_name, files). (model_name, length files)) MODELS =
             [(''tiny_face_detector'', 2), (''face_landmark_68_tiny'', 2), (''face_recognition'', 3)]"
proof (intro conjI allI impI)
  fix w' assume "main_download net w = Inr w'"
  from main_download_retrieved(1) [OF this]
  show "retrieved w' = retrieved w @
           map (\<lambda>filename. (BASE_URL @ ''/'' @ filename, OUTPUT_DIR @ ''/'' @ filename))
             (concat (map snd MODELS))"
    by (simp only: planned_MODELS)
next
  assume "(\<exists>fsys. os_makedirs (fs w) OUTPUT_DIR = Inr fsys) \<and> never_interrupted net"
  then show "\<exists>w'. main_download net w = Inr w'" using main_download_total by blast
next
  show "length (concat (map snd MODELS)) = 7" by (simp add: MODELS_def)
  show "map (\<lambda>(model_name, files). (model_name, length files)) MODELS =
             [(''tiny_face_detector'', 2), (''face_landmark_68_tiny'', 2), (''face_recognition'', 3)]"
    by (simp add: MODELS_def)
qed

theorem main_download_attempts_witness:
  "\<exists>w'. main_download one_kb_files fresh_world = Inr w' \<and> retrieved w' =
     [(''https://raw.githubusercontent.com/justadudewhohacks/face-api.js/master/weights/tiny_face_detector_model-weights_manifest.json'',
       ''face_recognition_model/tiny_face_detector_model-weights_manifest.json''),
      (''https://raw.githubusercontent.com/justadudewhohacks/face-api.js/master/weights/tiny_face_detector_model-shard1'',
       ''face_recognition_model/tiny_face_detector_model-shard1''),
      (''https://raw.githubusercontent.com/justadudewhohacks/face-api.js/master/weights/face_landmark_68_tiny_model-weights_manifest.json'',
       ''face_recognition_model/face_landmark_68_tiny_model-weights_manifest.json''),
      (''https://raw.githubusercontent.com/justadudewhohacks/face-api.js/master/weights/face_landmark_68_tiny_model-shard1'',
       ''face_recognition_model/face_landmark_68_tiny_model-shard1''),
      (''https://raw.githubusercontent.com/justadudewhohacks/face-api.js/master/weights/face_recognition_model-weights_manifest.json'',
       ''face_recognition_model/face_recognition_model-weights_manifest.json''),
      (''https://raw.githubusercontent.com/justadudewhohacks/face-api.js/master/weights/face_recognition_model-shard1'',
       ''face_recognition_model/face_recognition_model-shard1''),
      (''https://raw.githubusercontent.com/justadudewhohacks/face-api.js/master/weights/face_recognition_model-shard2'',
       ''face_recognition_model/face_recognition_model-shard2'')]"
proof -
  note T = main_download_attempts [of one_kb_files fresh_world]
  from T os_makedirs_fresh_world never_interrupted_one_kb_files
  obtain w' where run: "main_download one_kb_files fresh_world = Inr w'" by blast
  with T have "retrieved w' = retrieved fresh_world @
           map (\<lambda>filename. (BASE_URL @ ''/'' @ filename, OUTPUT_DIR @ ''/'' @ filename))
             (concat (map snd MODELS))"
    by blast
  with run show ?thesis
    by (simp add: fresh_world_def MODELS_def BASE_URL_def OUTPUT_DIR_def)
qed

text \<open>
  The claim as it was worded, for every invocation: with a regular file named
  \<open>face_recognition_model\<close> in the working directory, \<open>os.makedirs\<close> raises and \<open>main\<close> ends
  before the loops, with no download attempted, even on a network that serves every file.
\<close>

theorem main_download_attempts_counterexample:
  "main_download one_kb_files occupied_world =
     Inl (PyException ''FileExistsError''
            (''[Errno 17] File exists: '' @ repr_str ''face_recognition_model''))"
  by (rule main_download_Inl) (simp add: occupied_world_def os_makedirs_def OUTPUT_DIR_def)

section \<open>Properties of model\_conversion.py\<close>

subsection \<open>Writing into a directory\<close>

lemma os_makedirs_Inr:
  assumes "os_makedirs fsys d = Inr fsys'"
  shows "\<exists>names. fsys' d = Some (Dir names)" and "\<And>q. q \<noteq> d \<Longrightarrow> fsys' q = fsys q"
    and "\<And>names. fsys d = Some (Dir names) \<Longrightarrow> fsys' = fsys"
  using assms by (auto simp add: os_makedirs_def split: option.splits node.splits)

lemma os_makedirs_Dir:
  assumes "fsys d = Some (Dir names)"
  shows "os_makedirs fsys d = Inr fsys"
  using assms by (simp add: os_makedirs_def)

lemma write_entry_Inr:
  assumes "write_entry fsys d name content = Inr fsys'"
  shows "os_path_join d name \<noteq> d"
    and "fsys' (os_path_join d name) = Some (File content)"
    and "\<And>q. q \<noteq> d \<Longrightarrow> q \<noteq> os_path_join d name \<Longrightarrow> fsys' q = fsys q"
    and "\<exists>names names'. fsys d = Some (Dir names) \<and> fsys' d = Some (Dir names')
           \<and> set names \<subseteq> set names'"
  using assms
  by (auto simp add: write_entry_def Let_def split: option.splits node.splits if_splits)

text \<open>Overwriting a file that is there changes the content of that file only.\<close>

lemma write_entry_overwrite:
  assumes "fsys d = Some (Dir names)" and "fsys (os_path_join d name) = Some (File old)"
  shows "write_entry fsys d name content = Inr (fsys(os_path_join d name \<mapsto> File content))"
  using assms by (simp add: write_entry_def Let_def)

lemma write_artifacts_Inr:
  assumes "write_artifacts fsys d files = Inr fsys'" and "fsys d = Some (Dir names)"
  shows "\<exists>names'. fsys' d = Some (Dir names') \<and> set names \<subseteq> set names'"
    and "\<And>q. q \<noteq> d \<Longrightarrow> q \<notin> (\<lambda>(name, content). os_path_join d name) ` set files
           \<Longrightarrow> fsys' q = fsys q"
    and "\<And>name content. (name, content) \<in> set files
           \<Longrightarrow> \<exists>c. fsys' (os_path_join d name) = Some (File c)"
proof -
  have "(\<exists>names'. fsys' d = Some (Dir names') \<and> set names \<subseteq> set names')
     \<and> (\<forall>q. q \<noteq> d \<longrightarrow> q \<notin> (\<lambda>(name, content). os_path_join d name) ` set files
           \<longrightarrow> fsys' q = fsys q)
     \<and> (\<forall>(name, content) \<in> set files. \<exists>c. fsys' (os_path_join d name) = Some (File c))"
    using assms
  proof (induction files arbitrary: fsys names)
    case Nil
    then show ?case by simp
  next
    case (Cons f files)
    obtain name content where f: "f = (name, content)" by (cases f)
    from Cons.prems(1) obtain fsys1 where
      w: "write_entry fsys d name content = Inr fsys1"
      and r: "write_artifacts fsys1 d files = Inr fsys'"
      by (auto simp add: f split: sum.splits)
    note W = write_entry_Inr [OF w]
    from W(4) Cons.prems(2) obtain names1 where
      n1: "fsys1 d = Some (Dir names1)" "set names \<subseteq> set names1" by auto
    from Cons.IH [OF r n1(1)] obtain names' where
      n': "fsys' d = Some (Dir names')" "set names1 \<subseteq> set names'"
      and other: "\<forall>q. q \<noteq> d \<longrightarrow> q \<notin> (\<lambda>(name, content). os_path_join d name) ` set files
           \<longrightarrow> fsys' q = fsys1 q"
      and files: "\<forall>(name, content) \<in> set files. \<exists>c. fsys' (os_path_join d name) = Some (File c)"
      by blast
    have "\<exists>c. fsys' (os_path_join d name) = Some (File c)"
    proof (cases "os_path_join d name \<in> (\<lambda>(name, content). os_path_join d name) ` set files")
      case True
      with files show ?thesis by force
    next
      case False
      with other W(1) have "fsys' (os_path_join d name) = fsys1 (os_path_join d name)" by blast
      with W(2) show ?thesis by simp
    qed
    moreover have "\<forall>q. q \<noteq> d
        \<longrightarrow> q \<notin> (\<lambda>(name, content). os_path_join d name) ` set (f # files)
        \<longrightarrow> fsys' q = fsys q"
      using other W(3) by (auto simp add: f)
    ultimately show ?case using n' n1(2) files by (auto simp add: f)
  qed
  then show "\<exists>names'. fsys' d = Some (Dir names') \<and> set names \<subseteq> set names'"
    and "\<And>q. q \<noteq> d \<Longrightarrow> q \<notin> (\<lambda>(name, content). os_path_join d name) ` set files
           \<Longrightarrow> fsys' q = fsys q"
    and "\<And>name content. (name, content) \<in> set files
           \<Longrightarrow> \<exists>c. fsys' (os_path_join d name) = Some (File c)"
    by blast+
qed

subsection \<open>Writing the same files again\<close>






lemma save_keras_model_Inr:
  assumes "save_keras_model lib model d fsys = Inr fsys'" and "fsys d = Some (Dir names)"
  shows "\<exists>names'. fsys' d = Some (Dir names') \<and> set names \<subseteq> set names'"
  using assms
  by (auto simp add: save_keras_model_def split: sum.splits dest: write_artifacts_Inr(1))

subsection \<open>Measuring the directory\<close>

lemma sum_file_sizes_total:
  "sum_file_sizes fsys d names =
     Inr (\<Sum>name\<leftarrow>names. case fsys (os_path_join d name) of
                          Some (File content) \<Rightarrow> length content
                        | _ \<Rightarrow> 0)"
  by (induction names)
     (auto simp add: os_path_isfile_def os_path_getsize_def split: option.splits node.splits)

lemma fs_report_conversion [simp]: "fs (report_conversion size_mb w) = fs w"
  by (simp add: report_conversion_def Let_def)

lemma stdout_report_conversion:
  "stdout (report_conversion size_mb w) = stdout w @
     [newline # replicate 70 (CHR ''=''), size_line size_mb, replicate 70 (CHR ''='')] @
     (if size_mb \<le> 2 then [success_line_conversion] else [])"
  by (simp add: report_conversion_def Let_def)

text \<open>What a call of \<open>convert_to_tfjs\<close> comes to.\<close>

lemma convert_to_tfjs_Inr:
  assumes "os_makedirs (fs w) d = Inr fs1" and "save_keras_model lib model d fs1 = Inr fs2"
  shows "convert_to_tfjs lib model d w =
     Inr (py_truediv (of_nat (regular_file_bytes fs2 d)) (1024 * 1024),
          report_conversion (py_truediv (of_nat (regular_file_bytes fs2 d)) (1024 * 1024))
            ((print (newline # ''Converting to TensorFlow.js with quantization...'') w)
               \<lparr>fs := fs2\<rparr>))"
proof -
  from os_makedirs_Inr(1) [OF assms(1)] obtain names where "fs1 d = Some (Dir names)" by blast
  from save_keras_model_Inr [OF assms(2) this] obtain names' where
    "fs2 d = Some (Dir names')" by blast
  with assms show ?thesis
    by (simp add: convert_to_tfjs_def Let_def os_listdir_def sum_file_sizes_total
        regular_file_bytes_def)
qed

lemma convert_to_tfjs_returned:
  assumes "convert_to_tfjs lib model d w = Inr (size_mb, w')"
  obtains fs1 fs2 where
    "os_makedirs (fs w) d = Inr fs1" "save_keras_model lib model d fs1 = Inr fs2"
    "size_mb = py_truediv (of_nat (regular_file_bytes fs2 d)) (1024 * 1024)"
    "w' = report_conversion size_mb
            ((print (newline # ''Converting to TensorFlow.js with quantization...'') w)
               \<lparr>fs := fs2\<rparr>)"
proof -
  from assms obtain fs1 where mk: "os_makedirs (fs w) d = Inr fs1"
    by (cases "os_makedirs (fs w) d") (simp_all add: convert_to_tfjs_def Let_def)
  from assms mk obtain fs2 where sv: "save_keras_model lib model d fs1 = Inr fs2"
    by (cases "save_keras_model lib model d fs1") (simp_all add: convert_to_tfjs_def Let_def)
  from convert_to_tfjs_Inr [OF mk sv] assms mk sv show thesis by (intro that [of fs1 fs2]) auto
qed

subsection \<open>The README\<close>

lemma os_path_split_README_path: "os_path_split README_path = (OUTPUT_DIR, ''README.md'')"
  by (simp add: README_path_def OUTPUT_DIR_def os_path_join_def os_path_split_def
      os_path_basename_def Let_def)

lemma open_write_README_path:
  "open_write fsys README_path content = write_entry fsys OUTPUT_DIR ''README.md'' content"
  by (simp add: open_write_def os_path_split_README_path)

lemma write_entry_any_content:
  assumes "write_entry fsys d name content = Inr fsys'"
  shows "\<exists>fsys''. write_entry fsys d name content' = Inr fsys''"
  using assms by (auto simp add: write_entry_def Let_def split: option.splits node.splits)

lemma writable_README_path:
  "writable fsys README_path \<longleftrightarrow> (\<exists>fsys'. open_write fsys README_path content = Inr fsys')"
proof
  assume "writable fsys README_path"
  then obtain fsys0 where "write_entry fsys OUTPUT_DIR ''README.md'' [] = Inr fsys0"
    by (auto simp add: writable_def open_write_README_path split: sum.splits)
  from write_entry_any_content [OF this]
  show "\<exists>fsys'. open_write fsys README_path content = Inr fsys'"
    by (simp add: open_write_README_path)
next
  assume "\<exists>fsys'. open_write fsys README_path content = Inr fsys'"
  then obtain fsys' where "write_entry fsys OUTPUT_DIR ''README.md'' content = Inr fsys'"
    by (auto simp add: open_write_README_path)
  from write_entry_any_content [OF this, of "[]"]
  show "writable fsys README_path"
    by (auto simp add: writable_def open_write_README_path)
qed

lemma create_readme_Inr:
  assumes "open_write (fs w) README_path (readme_content size_mb) = Inr fs3"
  shows "create_readme OUTPUT_DIR size_mb w
           = Inr (print (check_mark @ '' README saved'') (w\<lparr>fs := fs3\<rparr>))"
  using assms by (simp add: create_readme_def README_path_def)

lemma create_readme_Inl:
  assumes "open_write (fs w) README_path (readme_content size_mb) = Inl e"
  shows "create_readme OUTPUT_DIR size_mb w = Inl e"
  using assms by (simp add: create_readme_def README_path_def)

text \<open>What the write of the README changes.\<close>

lemma open_write_README_Inr:
  assumes "open_write fsys README_path content = Inr fs3"
  shows "fs3 README_path = Some (File content)"
    and "\<And>p. p \<noteq> README_path \<Longrightarrow> p \<noteq> OUTPUT_DIR \<Longrightarrow> fs3 p = fsys p"
    and "\<exists>names names'. fsys OUTPUT_DIR = Some (Dir names) \<and> fs3 OUTPUT_DIR = Some (Dir names')
           \<and> set names \<subseteq> set names'"
proof -
  from assms have w: "write_entry fsys OUTPUT_DIR ''README.md'' content = Inr fs3"
    by (simp add: open_write_README_path)
  from write_entry_Inr(2) [OF w] show "fs3 README_path = Some (File content)"
    by (simp add: README_path_def)
  from write_entry_Inr(4) [OF w]
  show "\<exists>names names'. fsys OUTPUT_DIR = Some (Dir names) \<and> fs3 OUTPUT_DIR = Some (Dir names')
           \<and> set names \<subseteq> set names'" .
  fix p assume "p \<noteq> README_path" "p \<noteq> OUTPUT_DIR"
  with write_entry_Inr(3) [OF w, of p] show "fs3 p = fsys p" by (simp add: README_path_def)
qed

text \<open>Every line of the template is in the file, followed by its newline.\<close>

lemma readme_content_sublist:
  assumes "l \<in> set (readme_lines size_mb)"
  shows "sublist (l @ [newline]) (readme_content size_mb)"
proof -
  from assms obtain before after where "readme_lines size_mb = before @ l # after"
    by (auto simp add: in_set_conv_decomp)
  then have "readme_content size_mb =
      concat (map (\<lambda>l. l @ [newline]) before) @ (l @ [newline])
        @ concat (map (\<lambda>l. l @ [newline]) after)"
    by (simp add: readme_content_def)
  then show ?thesis unfolding sublist_def by blast
qed

subsection \<open>main\<close>

lemma stdout_print_files:
  "stdout (print_files names w) = stdout w @ map (\<lambda>f. ''  - '' @ f) names"
  and fs_print_files [simp]: "fs (print_files names w) = fs w"
  by (induction names arbitrary: w) simp_all

lemma success_line_conversion_printed:
  "success_line_conversion \<in> set (conversion_lines size_mb names) \<longleftrightarrow> size_mb \<le> 2"
  by (auto simp add: conversion_lines_def success_line_conversion_def size_line_def
      white_heavy_check_mark_def check_mark_def newline_def eval_nat_numeral)

lemma size_line_printed: "size_line size_mb \<in> set (conversion_lines size_mb names)"
  by (simp add: conversion_lines_def)

lemma main_conversion_Inr:
  assumes "build_network lib = Inr model"
    and "os_makedirs (fs w) OUTPUT_DIR = Inr fs1"
    and "save_keras_model lib model OUTPUT_DIR fs1 = Inr fs2"
    and "open_write fs2 README_path
           (readme_content (py_truediv (of_nat (regular_file_bytes fs2 OUTPUT_DIR)) (1024 * 1024)))
         = Inr fs3"
  obtains w' names where
    "main_conversion lib w = Inr w'"
    "fs w' = fs3"
    "fs3 OUTPUT_DIR = Some (Dir names)"
    "stdout w' = stdout w @
       conversion_lines (py_truediv (of_nat (regular_file_bytes fs2 OUTPUT_DIR)) (1024 * 1024)) names"
proof -
  let ?size = "py_truediv (of_nat (regular_file_bytes fs2 OUTPUT_DIR)) (1024 * 1024)"
  let ?w1 = "print (newline # ''1. Creating model architecture...'') w"
  let ?w2 = "print (check_mark @ '' Model created'')
               (print (newline # ''Creating MobileFaceNet architecture...'') ?w1)"
  let ?w3 = "print (newline # ''2. Converting to TensorFlow.js...'') ?w2"
  let ?w4 = "report_conversion ?size
               ((print (newline # ''Converting to TensorFlow.js with quantization...'') ?w3)
                  \<lparr>fs := fs2\<rparr>)"
  let ?w5 = "print (newline # ''3. Creating documentation...'') ?w4"
  let ?w6 = "print (check_mark @ '' README saved'') (?w5\<lparr>fs := fs3\<rparr>)"
  let ?w8 = "print ''Files:''
               (print (newline # white_heavy_check_mark @ '' DONE! Model saved to: ''
                         @ OUTPUT_DIR @ ''/'' @ [newline]) ?w6)"
  have cm: "create_model lib ?w1 = Inr (model, ?w2)"
    using assms(1) by (simp add: create_model_def Let_def)
  have "os_makedirs (fs ?w3) OUTPUT_DIR = Inr fs1" using assms(2) by simp
  from convert_to_tfjs_Inr [OF this assms(3)]
  have cv: "convert_to_tfjs lib model OUTPUT_DIR ?w3 = Inr (?size, ?w4)" .
  have "open_write (fs ?w5) README_path (readme_content ?size) = Inr fs3"
    using assms(4) by simp
  from create_readme_Inr [OF this]
  have cr: "create_readme OUTPUT_DIR ?size ?w5 = Inr ?w6" .
  from open_write_README_Inr(3) [OF assms(4)] obtain names where
    names: "fs3 OUTPUT_DIR = Some (Dir names)" by blast
  then have ls: "os_listdir (fs ?w8) OUTPUT_DIR = Inr names" by (simp add: os_listdir_def)
  let ?w' = "print [] (print_files names ?w8)"
  have run: "main_conversion lib w = Inr ?w'"
    unfolding main_conversion_def Let_def cm sum.case prod.case cv cr ls ..
  have "stdout ?w' = stdout w @ conversion_lines ?size names"
    by (simp add: conversion_lines_def stdout_print_files stdout_report_conversion)
  moreover have "fs ?w' = fs3" by simp
  ultimately show thesis using run names by (intro that [of ?w' names])
qed

text \<open>A run of \<open>main\<close> that returns has gone through these steps.\<close>

lemma main_conversion_returned:
  assumes "main_conversion lib w = Inr w'"
  obtains model fs1 fs2 fs3 where
    "build_network lib = Inr model"
    "os_makedirs (fs w) OUTPUT_DIR = Inr fs1"
    "save_keras_model lib model OUTPUT_DIR fs1 = Inr fs2"
    "open_write fs2 README_path
       (readme_content (py_truediv (of_nat (regular_file_bytes fs2 OUTPUT_DIR)) (1024 * 1024)))
     = Inr fs3"
proof -
  let ?w1 = "print (newline # ''1. Creating model architecture...'') w"
  from assms obtain model w2 where cm: "create_model lib ?w1 = Inr (model, w2)"
    by (cases "create_model lib ?w1") (auto simp add: main_conversion_def Let_def)
  then have b: "build_network lib = Inr model"
    and w2: "w2 = print (check_mark @ '' Model created'')
               (print (newline # ''Creating MobileFaceNet architecture...'') ?w1)"
    by (auto simp add: create_model_def Let_def split: sum.splits)
  let ?w3 = "print (newline # ''2. Converting to TensorFlow.js...'') w2"
  from assms cm obtain size_mb w4 where
    cv: "convert_to_tfjs lib model OUTPUT_DIR ?w3 = Inr (size_mb, w4)"
    by (cases "convert_to_tfjs lib model OUTPUT_DIR ?w3") (auto simp add: main_conversion_def Let_def)
  from cv obtain fs1 fs2 where mk: "os_makedirs (fs ?w3) OUTPUT_DIR = Inr fs1"
    and sv: "save_keras_model lib model OUTPUT_DIR fs1 = Inr fs2"
    and sz: "size_mb = py_truediv (of_nat (regular_file_bytes fs2 OUTPUT_DIR)) (1024 * 1024)"
    and w4: "w4 = report_conversion size_mb
            ((print (newline # ''Converting to TensorFlow.js with quantization...'') ?w3)
               \<lparr>fs := fs2\<rparr>)"
    by (rule convert_to_tfjs_returned)
  let ?w5 = "print (newline # ''3. Creating documentation...'') w4"
  from assms cm cv obtain w6 where cr: "create_readme OUTPUT_DIR size_mb ?w5 = Inr w6"
    by (cases "create_readme OUTPUT_DIR size_mb ?w5") (auto simp add: main_conversion_def Let_def)
  then obtain fs3 where "open_write (fs ?w5) README_path (readme_content size_mb) = Inr fs3"
    by (cases "open_write (fs ?w5) README_path (readme_content size_mb)")
       (auto simp add: create_readme_Inl)
  then have ow: "open_write fs2 README_path (readme_content size_mb) = Inr fs3"
    by (simp add: w4)
  from mk have mk': "os_makedirs (fs w) OUTPUT_DIR = Inr fs1" by (simp add: w2)
  from b mk' sv ow show thesis unfolding sz by (rule that)
qed

text \<open>Byte counts below \<open>2^53\<close> in MB: the division is exact.\<close>

lemma py_truediv_MB:
  assumes "n < 2 ^ 53"
  shows "py_truediv (of_nat n) (1024 * 1024) = of_nat n / 2 ^ 20"
proof -
  have "py_truediv (of_nat n) (1024 * 1024) = fl64 (of_nat n / 2 ^ 20)"
    by (simp add: py_truediv_def)
  also have "\<dots> = of_nat n / 2 ^ 20" using assms by (rule fl64_bytes_exact)
  finally show ?thesis .
qed

subsection \<open>The concrete exports\<close>

lemma path_simps:
  "os_path_join OUTPUT_DIR ''model.json'' = ''face_recognition_model/model.json''"
  "os_path_join OUTPUT_DIR ''group1-shard1of1.bin'' = ''face_recognition_model/group1-shard1of1.bin''"
  "os_path_join OUTPUT_DIR ''old'' = ''face_recognition_model/old''"
  "os_path_join OUTPUT_DIR ''pipe'' = ''face_recognition_model/pipe''"
  "README_path = ''face_recognition_model/README.md''"
  "os_path_join OUTPUT_DIR ''README.md'' = ''face_recognition_model/README.md''"
  by (simp_all add: os_path_join_def OUTPUT_DIR_def README_path_def)

lemma save_two_mb_cluttered:
  "save_keras_model two_mb_export () OUTPUT_DIR (fs cluttered_world) =
     Inr ((fs cluttered_world)
            (OUTPUT_DIR \<mapsto> Dir [''old'', ''pipe'', ''model.json''],
             ''face_recognition_model/model.json'' \<mapsto> File (replicate 1024 (CHR ''j'')),
             OUTPUT_DIR \<mapsto> Dir [''old'', ''pipe'', ''model.json'', ''group1-shard1of1.bin''],
             ''face_recognition_model/group1-shard1of1.bin''
               \<mapsto> File (replicate 2096128 (CHR ''b''))))"
  by (simp add: save_keras_model_def two_mb_export_def write_entry_def Let_def path_simps
      cluttered_world_def OUTPUT_DIR_def os_path_join_def)

lemma bytes_two_mb_cluttered:
  "regular_file_bytes ((fs cluttered_world)
            (OUTPUT_DIR \<mapsto> Dir [''old'', ''pipe'', ''model.json''],
             ''face_recognition_model/model.json'' \<mapsto> File (replicate 1024 (CHR ''j'')),
             OUTPUT_DIR \<mapsto> Dir [''old'', ''pipe'', ''model.json'', ''group1-shard1of1.bin''],
             ''face_recognition_model/group1-shard1of1.bin''
               \<mapsto> File (replicate 2096128 (CHR ''b'')))) OUTPUT_DIR = 2097152"
  by (simp add: regular_file_bytes_def cluttered_world_def OUTPUT_DIR_def os_path_join_def)

lemma os_makedirs_cluttered_world:
  "os_makedirs (fs cluttered_world) OUTPUT_DIR = Inr (fs cluttered_world)"
  by (simp add: os_makedirs_def cluttered_world_def OUTPUT_DIR_def os_path_join_def)


lemma save_two_mb:
  assumes "fsys OUTPUT_DIR = Some (Dir names)"
    and "''model.json'' \<notin> set names" and "''group1-shard1of1.bin'' \<notin> set names"
    and "fsys ''face_recognition_model/model.json'' = None"
    and "fsys ''face_recognition_model/group1-shard1of1.bin'' = None"
  shows "save_keras_model two_mb_export () OUTPUT_DIR fsys =
     Inr (fsys(OUTPUT_DIR \<mapsto> Dir (names @ [''model.json'']),
               ''face_recognition_model/model.json'' \<mapsto> File (replicate 1024 (CHR ''j'')),
               OUTPUT_DIR \<mapsto> Dir (names @ [''model.json'', ''group1-shard1of1.bin'']),
               ''face_recognition_model/group1-shard1of1.bin''
                 \<mapsto> File (replicate 2096128 (CHR ''b''))))"
  using assms
  by (simp add: save_keras_model_def two_mb_export_def write_entry_def Let_def path_simps)
     (simp add: OUTPUT_DIR_def)

lemma two_MiB: "py_truediv 2097152 (1024 * 1024) = 2"
  using py_truediv_MB [of 2097152] by simp


subsection \<open>The claims about the export pipeline\<close>

text \<open>
  Claim C5. The size that a call of \<open>convert_to_tfjs\<close> returns and prints in its
  \<open>MODEL SIZE\<close> line is the sum of the byte sizes of the regular files directly inside the
  output directory, as the export has left it, divided by \<open>1024 * 1024\<close>: subdirectories,
  what they hold, and special files count for nothing. The call returns when the directory
  can be made and the converter succeeds.
\<close>

theorem reported_size_is_directory_sum:
  "(\<forall>size_mb w'. convert_to_tfjs lib model d w = Inr (size_mb, w') \<longrightarrow>
       size_mb = py_truediv (of_nat (regular_file_bytes (fs w') d)) (1024 * 1024)
       \<and> size_line size_mb \<in> set (drop (length (stdout w)) (stdout w')))
   \<and> ((\<exists>fs1 fs2. os_makedirs (fs w) d = Inr fs1 \<and> save_keras_model lib model d fs1 = Inr fs2)
        \<longrightarrow> (\<exists>size_mb w'. convert_to_tfjs lib model d w = Inr (size_mb, w')))"
proof (intro conjI allI impI)
  fix size_mb w' assume "convert_to_tfjs lib model d w = Inr (size_mb, w')"
  then obtain fs1 fs2 where
    sz: "size_mb = py_truediv (of_nat (regular_file_bytes fs2 d)) (1024 * 1024)"
    and w': "w' = report_conversion size_mb
            ((print (newline # ''Converting to TensorFlow.js with quantization...'') w)
               \<lparr>fs := fs2\<rparr>)"
    by (rule convert_to_tfjs_returned)
  from w' have "fs w' = fs2" by simp
  with sz show "size_mb = py_truediv (of_nat (regular_file_bytes (fs w') d)) (1024 * 1024)"
    by simp
  show "size_line size_mb \<in> set (drop (length (stdout w)) (stdout w'))"
    by (simp add: w' stdout_report_conversion)
next
  assume "\<exists>fs1 fs2. os_makedirs (fs w) d = Inr fs1 \<and> save_keras_model lib model d fs1 = Inr fs2"
  then obtain fs1 fs2 where "os_makedirs (fs w) d = Inr fs1"
    and "save_keras_model lib model d fs1 = Inr fs2" by blast
  from convert_to_tfjs_Inr [OF this]
  show "\<exists>size_mb w'. convert_to_tfjs lib model d w = Inr (size_mb, w')"
    by (intro exI)
qed

theorem reported_size_is_directory_sum_witness:
  "\<exists>w'. convert_to_tfjs two_mb_export () OUTPUT_DIR cluttered_world = Inr (2, w')
     \<and> size_line 2 \<in> set (stdout w')"
proof -
  note T = reported_size_is_directory_sum [of two_mb_export "()" OUTPUT_DIR cluttered_world]
  from convert_to_tfjs_Inr [OF os_makedirs_cluttered_world save_two_mb_cluttered]
  obtain size_mb w' where
    run: "convert_to_tfjs two_mb_export () OUTPUT_DIR cluttered_world = Inr (size_mb, w')"
    and "fs w' = (fs cluttered_world)
            (OUTPUT_DIR \<mapsto> Dir [''old'', ''pipe'', ''model.json''],
             ''face_recognition_model/model.json'' \<mapsto> File (replicate 1024 (CHR ''j'')),
             OUTPUT_DIR \<mapsto> Dir [''old'', ''pipe'', ''model.json'', ''group1-shard1of1.bin''],
             ''face_recognition_model/group1-shard1of1.bin''
               \<mapsto> File (replicate 2096128 (CHR ''b'')))"
    by simp
  then have bytes: "regular_file_bytes (fs w') OUTPUT_DIR = 2097152"
    by (simp only: bytes_two_mb_cluttered)
  from T run have "size_mb = py_truediv (of_nat (regular_file_bytes (fs w') OUTPUT_DIR)) (1024 * 1024)
       \<and> size_line size_mb \<in> set (drop (length (stdout cluttered_world)) (stdout w'))"
    by blast
  then have "size_mb = 2 \<and> size_line 2 \<in> set (stdout w')"
    using two_MiB by (auto simp add: bytes cluttered_world_def)
  with run show ?thesis by blast
qed










lemma save_two_mb_fresh:
  "save_keras_model two_mb_export () OUTPUT_DIR ((fs fresh_world)(OUTPUT_DIR \<mapsto> Dir [])) =
     Inr ((fs fresh_world)
            (OUTPUT_DIR \<mapsto> Dir [],
             OUTPUT_DIR \<mapsto> Dir ([] @ [''model.json'']),
             ''face_recognition_model/model.json'' \<mapsto> File (replicate 1024 (CHR ''j'')),
             OUTPUT_DIR \<mapsto> Dir ([] @ [''model.json'', ''group1-shard1of1.bin'']),
             ''face_recognition_model/group1-shard1of1.bin''
               \<mapsto> File (replicate 2096128 (CHR ''b''))))"
  by (rule save_two_mb) (simp_all add: fresh_world_def OUTPUT_DIR_def)

text \<open>The directory that these exports leave: its listing, its files, their bytes.\<close>

lemma exported_fresh:
  fixes n :: nat
  defines "fs2 \<equiv> (fs fresh_world)
            (OUTPUT_DIR \<mapsto> Dir [],
             OUTPUT_DIR \<mapsto> Dir ([] @ [''model.json'']),
             ''face_recognition_model/model.json'' \<mapsto> File (replicate 1024 (CHR ''j'')),
             OUTPUT_DIR \<mapsto> Dir ([] @ [''model.json'', ''group1-shard1of1.bin'']),
             ''face_recognition_model/group1-shard1of1.bin'' \<mapsto> File (replicate n (CHR ''b'')))"
  shows "regular_file_bytes fs2 OUTPUT_DIR = 1024 + n"
    and "writable fs2 README_path"
    and "fs2 ''face_recognition_model/model.json'' = Some (File (replicate 1024 (CHR ''j'')))"
    and "fs2 ''face_recognition_model/group1-shard1of1.bin'' = Some (File (replicate n (CHR ''b'')))"
    and "fs2 OUTPUT_DIR = Some (Dir [''model.json'', ''group1-shard1of1.bin''])"
    and "fs2 README_path = None"
proof -
  show "regular_file_bytes fs2 OUTPUT_DIR = 1024 + n"
    by (simp add: fs2_def regular_file_bytes_def fresh_world_def OUTPUT_DIR_def os_path_join_def)
  show "writable fs2 README_path"
    unfolding writable_def open_write_README_path
    by (simp add: fs2_def write_entry_def Let_def fresh_world_def OUTPUT_DIR_def os_path_join_def)
  show "fs2 ''face_recognition_model/model.json'' = Some (File (replicate 1024 (CHR ''j'')))"
    and "fs2 ''face_recognition_model/group1-shard1of1.bin'' = Some (File (replicate n (CHR ''b'')))"
    and "fs2 OUTPUT_DIR = Some (Dir [''model.json'', ''group1-shard1of1.bin''])"
    and "fs2 README_path = None"
    by (simp_all add: fs2_def fresh_world_def OUTPUT_DIR_def README_path_def os_path_join_def)
qed




lemma format_fixed_2_MB: "format_fixed 2 2 = ''2.00''"
  by code_simp

lemma length_readme_content_2: "length (readme_content 2) = 743"
  by (simp add: readme_content_def readme_lines_def format_fixed_2_MB)

text \<open>The export of 2 MiB into a directory that holds the files of an earlier export.\<close>

lemma save_two_mb_over:
  assumes "fsys OUTPUT_DIR = Some (Dir names)"
    and "fsys ''face_recognition_model/model.json'' = Some (File a)"
    and "fsys ''face_recognition_model/group1-shard1of1.bin'' = Some (File b)"
  shows "save_keras_model two_mb_export () OUTPUT_DIR fsys =
     Inr (fsys(''face_recognition_model/model.json'' \<mapsto> File (replicate 1024 (CHR ''j'')),
               ''face_recognition_model/group1-shard1of1.bin''
                 \<mapsto> File (replicate 2096128 (CHR ''b''))))"
  using assms
  by (simp add: save_keras_model_def two_mb_export_def write_entry_def Let_def path_simps)
     (simp add: OUTPUT_DIR_def)

text \<open>
  Claim C10, amended. In every run of \<open>main\<close> that returns, one number is returned by
  \<open>convert_to_tfjs\<close>, printed in the \<open>MODEL SIZE\<close> line and written in the \<open>**Size**\<close> line of
  the README. It is measured on the directory as the converter leaves it, before this run
  writes \<open>README.md\<close>: a \<open>README.md\<close> that was in the directory when the run began, and that
  the converter does not replace, is there unchanged at that moment and is counted as any
  regular file is.
\<close>

theorem readme_reports_measured_size:
  "(\<forall>w'. main_conversion lib w = Inr w' \<longrightarrow>
      (\<exists>model fs1 fs2 size_mb w3 w4.
          os_makedirs (fs w) OUTPUT_DIR = Inr fs1
          \<and> save_keras_model lib model OUTPUT_DIR fs1 = Inr fs2
          \<and> fs w3 = fs w
          \<and> convert_to_tfjs lib model OUTPUT_DIR w3 = Inr (size_mb, w4)
          \<and> size_mb = py_truediv (of_nat (regular_file_bytes fs2 OUTPUT_DIR)) (1024 * 1024)
          \<and> size_line size_mb \<in> set (drop (length (stdout w)) (stdout w'))
          \<and> fs w' README_path = Some (File (readme_content size_mb))
          \<and> sublist (''**Size**: '' @ format_fixed 2 size_mb
                       @ '' MB | **Input**: 112x112 | **Output**: 128-D embedding'' @ [newline])
               (readme_content size_mb)
          \<and> (\<forall>files. serialize lib model = Inr files
                 \<and> README_path \<notin> (\<lambda>(name, content). os_path_join OUTPUT_DIR name) ` set files
                 \<longrightarrow> fs2 README_path = fs w README_path)))
   \<and> (\<forall>model fs1 fs2.
          build_network lib = Inr model
          \<and> os_makedirs (fs w) OUTPUT_DIR = Inr fs1
          \<and> save_keras_model lib model OUTPUT_DIR fs1 = Inr fs2
          \<and> writable fs2 README_path
          \<longrightarrow> (\<exists>w'. main_conversion lib w = Inr w'))"
proof (intro conjI allI impI)
  fix w' assume run: "main_conversion lib w = Inr w'"
  then obtain model fs1 fs2 fs3 where
    b: "build_network lib = Inr model"
    and mk: "os_makedirs (fs w) OUTPUT_DIR = Inr fs1"
    and sv: "save_keras_model lib model OUTPUT_DIR fs1 = Inr fs2"
    and ow: "open_write fs2 README_path
       (readme_content (py_truediv (of_nat (regular_file_bytes fs2 OUTPUT_DIR)) (1024 * 1024)))
     = Inr fs3"
    by (rule main_conversion_returned)
  let ?size = "py_truediv (of_nat (regular_file_bytes fs2 OUTPUT_DIR)) (1024 * 1024)"
  from b mk sv ow obtain w'' names where
    "main_conversion lib w = Inr w''" and f: "fs w'' = fs3"
    and out: "stdout w'' = stdout w @ conversion_lines ?size names"
    by (rule main_conversion_Inr)
  with run have w'': "w'' = w'" by simp
  have cv: "\<exists>w4. convert_to_tfjs lib model OUTPUT_DIR w = Inr (?size, w4)"
    using convert_to_tfjs_Inr [OF mk sv] by (intro exI)
  have line: "size_line ?size \<in> set (drop (length (stdout w)) (stdout w'))"
    using out by (simp add: w'' size_line_printed)
  have readme: "fs w' README_path = Some (File (readme_content ?size))"
    using open_write_README_Inr(1) [OF ow] f by (simp add: w'')
  have "sublist ((''**Size**: '' @ format_fixed 2 ?size
                @ '' MB | **Input**: 112x112 | **Output**: 128-D embedding'') @ [newline])
        (readme_content ?size)"
    by (rule readme_content_sublist) (simp add: readme_lines_def)
  then have sub: "sublist (''**Size**: '' @ format_fixed 2 ?size
                @ '' MB | **Input**: 112x112 | **Output**: 128-D embedding'' @ [newline])
        (readme_content ?size)"
    by simp
  have old: "\<forall>files. serialize lib model = Inr files
                 \<and> README_path \<notin> (\<lambda>(name, content). os_path_join OUTPUT_DIR name) ` set files
                 \<longrightarrow> fs2 README_path = fs w README_path"
  proof (intro allI impI)
    fix files
    assume a: "serialize lib model = Inr files
                 \<and> README_path \<notin> (\<lambda>(name, content). os_path_join OUTPUT_DIR name) ` set files"
    have ne: "README_path \<noteq> OUTPUT_DIR"
      by (simp add: README_path_def OUTPUT_DIR_def os_path_join_def)
    from os_makedirs_Inr(1) [OF mk] obtain names1 where d1: "fs1 OUTPUT_DIR = Some (Dir names1)"
      by blast
    from sv a have "write_artifacts fs1 OUTPUT_DIR files = Inr fs2"
      by (simp add: save_keras_model_def)
    from write_artifacts_Inr(2) [OF this d1 ne] a have "fs2 README_path = fs1 README_path"
      by blast
    with os_makedirs_Inr(2) [OF mk ne] show "fs2 README_path = fs w README_path" by simp
  qed
  from mk sv cv line readme sub old
  show "\<exists>model fs1 fs2 size_mb w3 w4.
          os_makedirs (fs w) OUTPUT_DIR = Inr fs1
          \<and> save_keras_model lib model OUTPUT_DIR fs1 = Inr fs2
          \<and> fs w3 = fs w
          \<and> convert_to_tfjs lib model OUTPUT_DIR w3 = Inr (size_mb, w4)
          \<and> size_mb = py_truediv (of_nat (regular_file_bytes fs2 OUTPUT_DIR)) (1024 * 1024)
          \<and> size_line size_mb \<in> set (drop (length (stdout w)) (stdout w'))
          \<and> fs w' README_path = Some (File (readme_content size_mb))
          \<and> sublist (''**Size**: '' @ format_fixed 2 size_mb
                       @ '' MB | **Input**: 112x112 | **Output**: 128-D embedding'' @ [newline])
               (readme_content size_mb)
          \<and> (\<forall>files. serialize lib model = Inr files
                 \<and> README_path \<notin> (\<lambda>(name, content). os_path_join OUTPUT_DIR name) ` set files
                 \<longrightarrow> fs2 README_path = fs w README_path)"
    by blast
next
  fix model fs1 fs2
  assume a: "build_network lib = Inr model
          \<and> os_makedirs (fs w) OUTPUT_DIR = Inr fs1
          \<and> save_keras_model lib model OUTPUT_DIR fs1 = Inr fs2
          \<and> writable fs2 README_path"
  let ?size = "py_truediv (of_nat (regular_file_bytes fs2 OUTPUT_DIR)) (1024 * 1024)"
  from a obtain fs3 where "open_write fs2 README_path (readme_content ?size) = Inr fs3"
    unfolding writable_README_path [of _ "readme_content ?size"] by blast
  with a obtain w' where "main_conversion lib w = Inr w'"
    by (blast intro: main_conversion_Inr)
  then show "\<exists>w'. main_conversion lib w = Inr w'" ..
qed

theorem readme_reports_measured_size_witness:
  "\<exists>w'. main_conversion two_mb_export fresh_world = Inr w'
     \<and> ''MODEL SIZE: 2.00 MB'' \<in> set (stdout w')
     \<and> fs w' README_path = Some (File (readme_content 2))
     \<and> sublist (''**Size**: 2.00 MB | **Input**: 112x112 | **Output**: 128-D embedding''
                  @ [newline]) (readme_content 2)"
proof -
  note T = readme_reports_measured_size [of two_mb_export fresh_world]
  note E = exported_fresh [of 2096128]
  have b: "build_network two_mb_export = Inr ()" by (simp add: two_mb_export_def)
  from T b os_makedirs_fresh_world save_two_mb_fresh E(2)
  obtain w' where run: "main_conversion two_mb_export fresh_world = Inr w'" by blast
  with T obtain model fs1 fs2 size_mb where
    mk: "os_makedirs (fs fresh_world) OUTPUT_DIR = Inr fs1"
    and sv: "save_keras_model two_mb_export model OUTPUT_DIR fs1 = Inr fs2"
    and sz: "size_mb = py_truediv (of_nat (regular_file_bytes fs2 OUTPUT_DIR)) (1024 * 1024)"
    and line: "size_line size_mb \<in> set (drop (length (stdout fresh_world)) (stdout w'))"
    and readme: "fs w' README_path = Some (File (readme_content size_mb))"
    and sub: "sublist (''**Size**: '' @ format_fixed 2 size_mb
                       @ '' MB | **Input**: 112x112 | **Output**: 128-D embedding'' @ [newline])
               (readme_content size_mb)"
    by blast
  from mk os_makedirs_fresh_world have fs1: "fs1 = (fs fresh_world)(OUTPUT_DIR \<mapsto> Dir [])"
    by simp
  from sv save_two_mb_fresh have fs2: "fs2 = (fs fresh_world)
            (OUTPUT_DIR \<mapsto> Dir [],
             OUTPUT_DIR \<mapsto> Dir ([] @ [''model.json'']),
             ''face_recognition_model/model.json'' \<mapsto> File (replicate 1024 (CHR ''j'')),
             OUTPUT_DIR \<mapsto> Dir ([] @ [''model.json'', ''group1-shard1of1.bin'']),
             ''face_recognition_model/group1-shard1of1.bin''
               \<mapsto> File (replicate 2096128 (CHR ''b'')))"
    by (simp only: fs1 unit_eq [of model] sum.inject)
  have s2: "size_mb = 2" unfolding sz fs2 E(1) using two_MiB by simp
  from line have "''MODEL SIZE: 2.00 MB'' \<in> set (stdout w')"
    by (simp add: s2 size_line_def format_fixed_2_MB fresh_world_def)
  moreover from readme have "fs w' README_path = Some (File (readme_content 2))"
    by (simp add: s2)
  moreover from sub
  have "sublist (''**Size**: 2.00 MB | **Input**: 112x112 | **Output**: 128-D embedding''
                  @ [newline]) (readme_content 2)"
    by (simp add: s2 format_fixed_2_MB)
  ultimately show ?thesis using run by blast
qed

text \<open>
  The claim as it was worded, that the bytes of the README are never in the size: running
  the script twice in an empty working directory, with a converter whose files come to
  exactly 2 MiB. The first run reports 2.00 MB, prints the banner and writes a README of 743
  bytes. The second run measures these 743 bytes with the files of the converter: the size
  it reports and writes in the README is \<open>2097895 / 1048576\<close>, and it prints no banner.
\<close>

theorem readme_reports_measured_size_counterexample:
  "\<exists>w1 w2. main_conversion two_mb_export fresh_world = Inr w1
     \<and> success_line_conversion \<in> set (stdout w1)
     \<and> fs w1 README_path = Some (File (readme_content 2))
     \<and> length (readme_content 2) = 743
     \<and> main_conversion two_mb_export w1 = Inr w2
     \<and> success_line_conversion \<notin> set (drop (length (stdout w1)) (stdout w2))
     \<and> fs w2 README_path = Some (File (readme_content (2097895 / 1048576)))"
proof -
  let ?fa = "(fs fresh_world)
            (OUTPUT_DIR \<mapsto> Dir [],
             OUTPUT_DIR \<mapsto> Dir ([] @ [''model.json'']),
             ''face_recognition_model/model.json'' \<mapsto> File (replicate 1024 (CHR ''j'')),
             OUTPUT_DIR \<mapsto> Dir ([] @ [''model.json'', ''group1-shard1of1.bin'']),
             ''face_recognition_model/group1-shard1of1.bin''
               \<mapsto> File (replicate 2096128 (CHR ''b'')))"
  let ?fs3 = "?fa(OUTPUT_DIR \<mapsto> Dir [''model.json'', ''group1-shard1of1.bin'', ''README.md''],
                  README_path \<mapsto> File (readme_content 2))"
  note E = exported_fresh [of 2096128]
  have b: "build_network two_mb_export = Inr ()" by (simp add: two_mb_export_def)
  have size1: "py_truediv (of_nat (regular_file_bytes ?fa OUTPUT_DIR)) (1024 * 1024) = 2"
    unfolding E(1) using two_MiB by simp
  have "write_entry ?fa OUTPUT_DIR ''README.md'' (readme_content 2) = Inr ?fs3"
    using E(5,6) by (simp add: write_entry_def Let_def README_path_def)
  then have ow1: "open_write ?fa README_path
      (readme_content (py_truediv (of_nat (regular_file_bytes ?fa OUTPUT_DIR)) (1024 * 1024)))
      = Inr ?fs3"
    by (simp only: size1 open_write_README_path)
  from b os_makedirs_fresh_world save_two_mb_fresh ow1 obtain w1 names1 where
    run1: "main_conversion two_mb_export fresh_world = Inr w1"
    and f1: "fs w1 = ?fs3"
    and out1: "stdout w1 = stdout fresh_world @
        conversion_lines (py_truediv (of_nat (regular_file_bytes ?fa OUTPUT_DIR)) (1024 * 1024))
          names1"
    by (rule main_conversion_Inr)
  from out1 have "stdout w1 = stdout fresh_world @ conversion_lines 2 names1"
    by (simp only: size1)
  then have banner1: "success_line_conversion \<in> set (stdout w1)"
    by (simp add: success_line_conversion_printed)
  have readme1: "fs w1 README_path = Some (File (readme_content 2))"
    by (simp add: f1)

  let ?fb = "?fs3(''face_recognition_model/model.json'' \<mapsto> File (replicate 1024 (CHR ''j'')),
                  ''face_recognition_model/group1-shard1of1.bin''
                    \<mapsto> File (replicate 2096128 (CHR ''b'')))"
  have d3: "?fs3 OUTPUT_DIR = Some (Dir [''model.json'', ''group1-shard1of1.bin'', ''README.md''])"
    by (simp add: README_path_def OUTPUT_DIR_def os_path_join_def)
  then have "os_makedirs ?fs3 OUTPUT_DIR = Inr ?fs3" by (rule os_makedirs_Dir)
  then have mk2: "os_makedirs (fs w1) OUTPUT_DIR = Inr ?fs3" by (simp only: f1)
  have sv2: "save_keras_model two_mb_export () OUTPUT_DIR ?fs3 = Inr ?fb"
    using d3
    by (rule save_two_mb_over)
       (simp_all add: README_path_def OUTPUT_DIR_def os_path_join_def)
  have bytes2: "regular_file_bytes ?fb OUTPUT_DIR = 2097895"
    by (simp add: regular_file_bytes_def README_path_def OUTPUT_DIR_def os_path_join_def
        length_readme_content_2)
  have size2: "py_truediv (of_nat (regular_file_bytes ?fb OUTPUT_DIR)) (1024 * 1024)
      = 2097895 / 1048576"
    unfolding bytes2 using py_truediv_MB [of 2097895] by simp
  let ?fs3' = "?fb(README_path \<mapsto> File (readme_content (2097895 / 1048576)))"
  have "write_entry ?fb OUTPUT_DIR ''README.md'' (readme_content (2097895 / 1048576))
      = Inr ?fs3'"
    unfolding README_path_def
    by (rule write_entry_overwrite [where old = "readme_content 2"])
       (simp_all add: OUTPUT_DIR_def os_path_join_def)
  then have ow2: "open_write ?fb README_path
      (readme_content (py_truediv (of_nat (regular_file_bytes ?fb OUTPUT_DIR)) (1024 * 1024)))
      = Inr ?fs3'"
    by (simp only: size2 open_write_README_path)
  from b mk2 sv2 ow2 obtain w2 names2 where
    run2: "main_conversion two_mb_export w1 = Inr w2"
    and f2: "fs w2 = ?fs3'"
    and out2: "stdout w2 = stdout w1 @
        conversion_lines (py_truediv (of_nat (regular_file_bytes ?fb OUTPUT_DIR)) (1024 * 1024))
          names2"
    by (rule main_conversion_Inr)
  from out2 have "stdout w2 = stdout w1 @ conversion_lines (2097895 / 1048576) names2"
    by (simp only: size2)
  then have banner2: "success_line_conversion \<notin> set (drop (length (stdout w1)) (stdout w2))"
    by (simp add: success_line_conversion_printed)
  have readme2: "fs w2 README_path = Some (File (readme_content (2097895 / 1048576)))"
    by (simp add: f2)
  from run1 banner1 readme1 length_readme_content_2 run2 banner2 readme2
  show ?thesis by blast
qed

end
